theory Spec2Isabelle
  imports Complex_Main "HOL-Library.Product_Lexorder" "HOL-Library.List_Lexorder"
    "HOL-Library.Char_ord"
begin

section \<open>Data model\<close>

text \<open>
  The Django models the core reads, as records. Primary keys are natural numbers, text
  columns are byte strings, and Python floats (grade points, scores, averages) are
  idealised as real numbers: the properties below compare and add them but never depend
  on binary rounding.
\<close>

datatype py_error = ValueError | MultipleObjectsReturned

record course =
  course_pk :: nat
  code :: string
  title :: string
  units :: nat

text \<open>
  An enrollment row together with the columns reached through its course offering:
  \<open>enrollment.course\<close>, \<open>enrollment.session\<close> (primary key and name) and
  \<open>enrollment.semester\<close>.
\<close>

record enrollment =
  enrollment_id :: nat
  student_ref :: nat
  course_of :: course
  session_pk :: nat
  session_name :: "string option"
  semester :: string

record grade_row =
  grade :: string
  total_score :: real
  status :: string

record grading_settings =
  grade_name :: string
  min_score :: real
  max_score :: real
  grade_point :: real

record academic_policy_settings =
  repeat_policy :: string
  require_approved_for_metrics :: bool

record program =
  program_pk :: nat
  min_units_to_graduate :: nat
  classification_scheme :: string

text \<open>Nullable foreign keys of a student are options; a level or session is its name.\<close>

record student =
  student_pk :: nat
  student_id :: string
  first_name :: string
  last_name :: string
  entry_level :: "string option"
  current_level :: "string option"
  current_session :: "string option"
  program_of :: "program option"

record curriculum_course =
  cc_program :: nat
  cc_course :: course
  is_compulsory :: bool

record prerequisite =
  prereq_program :: nat
  prereq_course :: nat
  prerequisite_course :: course

record classification_threshold =
  threshold_program :: nat
  label :: string
  min_cgpa :: real

text \<open>
  The relational store as the core sees it. \<open>enrollments\<close> is the Enrollment table in
  the order its querysets return rows, \<open>grades\<close> the Grade row of an enrollment
  (one-to-one, so at most one), \<open>scale\<close> the GradingSettings table in its declared
  ordering (descending minimum score), \<open>policy\<close> the singleton policy row; the
  curriculum, prerequisite and threshold tables are lists of rows in table order.
\<close>

record academic_db =
  enrollments :: "enrollment list"
  grades :: "nat \<rightharpoonup> grade_row"
  scale :: "grading_settings list"
  policy :: academic_policy_settings
  curriculum :: "curriculum_course list"
  prerequisites :: "prerequisite list"
  classification_thresholds :: "classification_threshold list"

definition STATUS_APPROVED :: string where
  "STATUS_APPROVED = ''APPROVED''"

subsection \<open>Python built-ins used by the core\<close>

text \<open>
  \<open>str.upper()\<close>, \<open>str.strip()\<close> and \<open>\d\<close> on ASCII text: the letters a-z are
  mapped to A-Z, every other byte is kept.
\<close>

definition upper_char :: "char \<Rightarrow> char" where
  "upper_char c =
     (case map_of (zip ''abcdefghijklmnopqrstuvwxyz'' ''ABCDEFGHIJKLMNOPQRSTUVWXYZ'') c of
        Some u \<Rightarrow> u
      | None \<Rightarrow> c)"

definition str_upper :: "string \<Rightarrow> string" where
  "str_upper s = map upper_char s"

definition is_space :: "char \<Rightarrow> bool" where
  "is_space c =
     (c \<in> set [CHR '' '', CHR 0x09, CHR 0x0A, CHR 0x0B, CHR 0x0C, CHR 0x0D,
                CHR 0x1C, CHR 0x1D, CHR 0x1E, CHR 0x1F])"

definition str_strip :: "string \<Rightarrow> string" where
  "str_strip s = rev (dropWhile is_space (rev (dropWhile is_space s)))"

definition is_digit :: "char \<Rightarrow> bool" where
  "is_digit c = (c \<in> set ''0123456789'')"

definition digit_val :: "char \<Rightarrow> int" where
  "digit_val c =
     (case map_of (zip ''0123456789'' [0, 1, 2, 3, 4, 5, 6, 7, 8, 9]) c of
        Some v \<Rightarrow> v
      | None \<Rightarrow> 0)"

definition int_of_digits :: "string \<Rightarrow> int" where
  "int_of_digits s = foldl (\<lambda>acc c. 10 * acc + digit_val c) 0 s"

text \<open>\<open>sep.join(xs)\<close> and the decimal \<open>str(n)\<close> of a non-negative integer.\<close>

fun str_join :: "string \<Rightarrow> string list \<Rightarrow> string" where
  "str_join sep [] = []"
| "str_join sep [x] = x"
| "str_join sep (x # y # ys) = x @ sep @ str_join sep (y # ys)"

definition digit_char :: "nat \<Rightarrow> char" where
  "digit_char d = ''0123456789'' ! d"

fun str_nat :: "nat \<Rightarrow> string" where
  "str_nat n = (if n < 10 then [digit_char n] else str_nat (n div 10) @ [digit_char (n mod 10)])"

declare str_nat.simps [simp del]

text \<open>
  \<open>round(x, 2)\<close> on the idealised reals: to the nearest hundredth, a tie going to the
  even neighbour. Python rounds the binary double nearest to \<open>x\<close>, which can fall on
  the other side of a decimal tie (2.675 is rounded to 2.67 there and to 2.68 here);
  the properties below hold for the average as reported and do not depend on which
  hundredth is chosen.
\<close>

definition round_half_even :: "real \<Rightarrow> int" where
  "round_half_even x =
     (let f = \<lfloor>x\<rfloor>; r = x - of_int f in
      if r < 1 / 2 then f else if 1 / 2 < r then f + 1 else if even f then f else f + 1)"

definition py_round2 :: "real \<Rightarrow> real" where
  "py_round2 x = of_int (round_half_even (x * 100)) / 100"

text \<open>\<open>max(xs, key=k)\<close>: the first element whose key is maximal; ValueError on an empty list.\<close>

fun max_by_from :: "('a \<Rightarrow> 'k::linorder) \<Rightarrow> 'a \<Rightarrow> 'a list \<Rightarrow> 'a" where
  "max_by_from key best [] = best"
| "max_by_from key best (x # xs) = max_by_from key (if key best < key x then x else best) xs"

definition py_max :: "('a \<Rightarrow> 'k::linorder) \<Rightarrow> 'a list \<Rightarrow> py_error + 'a" where
  "py_max key xs = (case xs of [] \<Rightarrow> Inl ValueError | x # rest \<Rightarrow> Inr (max_by_from key x rest))"

text \<open>\<open>d.setdefault(k, []).append(e)\<close> on an insertion-ordered dictionary.\<close>

fun setdefault_append :: "'k \<Rightarrow> 'a \<Rightarrow> ('k \<times> 'a list) list \<Rightarrow> ('k \<times> 'a list) list" where
  "setdefault_append k e [] = [(k, [e])]"
| "setdefault_append k e ((k', vs) # m) =
     (if k = k' then (k', vs @ [e]) # m else (k', vs) # setdefault_append k e m)"

section \<open>Repeat policy (grading/repeat_policy.py)\<close>

definition SEMESTER_ORDER :: "string \<rightharpoonup> int" where
  "SEMESTER_ORDER = [''FIRST'' \<mapsto> 1, ''SECOND'' \<mapsto> 2, ''SUMMER'' \<mapsto> 3]"

text \<open>\<open>re.search(r'(\d{4})', s)\<close>: the leftmost run of four decimal digits.\<close>

fun search_4digits :: "string \<Rightarrow> string option" where
  "search_4digits (a # b # c # d # rest) =
     (if is_digit a \<and> is_digit b \<and> is_digit c \<and> is_digit d then Some [a, b, c, d]
      else search_4digits (b # c # d # rest))"
| "search_4digits _ = None"

definition session_sort_key :: "string option \<Rightarrow> int" where
  "session_sort_key name =
     (case name of
        None \<Rightarrow> 0
      | Some s \<Rightarrow>
          if s = [] then 0
          else (case search_4digits s of Some m \<Rightarrow> int_of_digits m | None \<Rightarrow> 0))"

definition term_sort_key :: "enrollment \<Rightarrow> int \<times> int" where
  "term_sort_key e =
     (session_sort_key (session_name e),
      (case SEMESTER_ORDER (semester e) of Some n \<Rightarrow> n | None \<Rightarrow> 0))"

text \<open>\<open>Model.objects.filter(...).first()\<close> on the ordered scale.\<close>

definition scale_first :: "academic_db \<Rightarrow> string \<Rightarrow> grading_settings option" where
  "scale_first db g = find (\<lambda>s. grade_name s = g) (scale db)"

definition grade_point_for_enrollment :: "academic_db \<Rightarrow> enrollment \<Rightarrow> real" where
  "grade_point_for_enrollment db e =
     (case grades db (enrollment_id e) of
        None \<Rightarrow> -1
      | Some g \<Rightarrow>
          if grade g = [] then -1
          else (case scale_first db (grade g) of None \<Rightarrow> -1 | Some s \<Rightarrow> grade_point s))"

definition by_course :: "enrollment list \<Rightarrow> (string \<times> enrollment list) list" where
  "by_course enroll_list = fold (\<lambda>e m. setdefault_append (code (course_of e)) e m) enroll_list []"

definition best_key :: "academic_db \<Rightarrow> enrollment \<Rightarrow> real \<times> int \<times> int" where
  "best_key db x = (grade_point_for_enrollment db x, term_sort_key x)"

text \<open>One iteration of the loop over \<open>by_course.items()\<close>.\<close>

definition choose_step ::
  "academic_db \<Rightarrow> string \<Rightarrow> enrollment list \<Rightarrow> nat set \<Rightarrow> py_error + nat set" where
  "choose_step db rp attempts chosen =
     (if rp = ''LATEST'' then
        (case py_max term_sort_key attempts of
           Inl err \<Rightarrow> Inl err
         | Inr best \<Rightarrow> Inr (insert (enrollment_id best) chosen))
      else if rp = ''BEST'' then
        (case py_max (best_key db) attempts of
           Inl err \<Rightarrow> Inl err
         | Inr best \<Rightarrow> Inr (insert (enrollment_id best) chosen))
      else Inr (chosen \<union> enrollment_id ` set attempts))"

fun choose_loop ::
  "academic_db \<Rightarrow> string \<Rightarrow> (string \<times> enrollment list) list \<Rightarrow> nat set \<Rightarrow> py_error + nat set" where
  "choose_loop db rp [] chosen = Inr chosen"
| "choose_loop db rp ((course_code, attempts) # groups) chosen =
     (case choose_step db rp attempts chosen of
        Inl err \<Rightarrow> Inl err
      | Inr chosen' \<Rightarrow> choose_loop db rp groups chosen')"

text \<open>
  The argument \<open>repeat_policy\<close> is \<open>None\<close> or a string; \<open>(repeat_policy or 'ALL').upper()\<close>
  replaces \<open>None\<close> and the empty string by \<open>'ALL'\<close> before upper-casing.
\<close>

definition normalise_policy :: "string option \<Rightarrow> string" where
  "normalise_policy policy_value =
     str_upper (case policy_value of None \<Rightarrow> ''ALL'' | Some s \<Rightarrow> if s = [] then ''ALL'' else s)"

definition select_enrollments_for_gpa ::
  "academic_db \<Rightarrow> enrollment list \<Rightarrow> string option \<Rightarrow> py_error + nat set" where
  "select_enrollments_for_gpa db enroll_list policy_value =
     (let rp = normalise_policy policy_value in
      if rp = ''ALL'' then Inr (enrollment_id ` set enroll_list)
      else choose_loop db rp (by_course enroll_list) {})"

section \<open>Academic metrics (students/models.py, Student.update_academic_metrics)\<close>

record metrics_acc =
  total_grade_points :: real
  total_units :: nat
  passed_units :: nat
  sessions_set :: "nat set"

record metrics =
  current_cgpa :: real
  total_units_attempted :: nat
  total_units_passed :: nat
  total_sessions_completed :: nat

text \<open>\<open>self.enrollment_set.all()\<close> and \<open>Enrollment.objects.filter(student=student)\<close>.\<close>

definition enrollment_set :: "academic_db \<Rightarrow> student \<Rightarrow> enrollment list" where
  "enrollment_set db s = filter (\<lambda>e. student_ref e = student_pk s) (enrollments db)"

text \<open>
  The handler of \<open>Grade.DoesNotExist\<close> and \<open>GradingSettings.DoesNotExist\<close>: the units
  of a counted enrollment are still attempted units.
\<close>

definition no_grade_branch :: "nat set \<Rightarrow> enrollment \<Rightarrow> metrics_acc \<Rightarrow> metrics_acc" where
  "no_grade_branch counted_ids e acc =
     acc\<lparr>total_units :=
            (if enrollment_id e \<in> counted_ids then total_units acc + units (course_of e)
             else total_units acc),
         sessions_set := insert (session_pk e) (sessions_set acc)\<rparr>"

definition graded_branch ::
  "nat set \<Rightarrow> enrollment \<Rightarrow> grading_settings \<Rightarrow> metrics_acc \<Rightarrow> metrics_acc" where
  "graded_branch counted_ids e grading_setting acc =
     (let course_units = units (course_of e);
          grade_points = grade_point grading_setting * real course_units
      in \<lparr>total_grade_points =
              (if enrollment_id e \<in> counted_ids then total_grade_points acc + grade_points
               else total_grade_points acc),
           total_units =
              (if enrollment_id e \<in> counted_ids then total_units acc + course_units
               else total_units acc),
           passed_units =
              (if 0 < grade_point grading_setting then passed_units acc + course_units
               else passed_units acc),
           sessions_set = insert (session_pk e) (sessions_set acc)\<rparr>)"

text \<open>
  The body of the loop over the student's enrollments. \<open>objects.get\<close> raises
  \<open>DoesNotExist\<close> (caught) when no row matches and \<open>MultipleObjectsReturned\<close> (not
  caught) when several do; an unapproved grade under approval gating hits \<open>continue\<close>.
\<close>

definition metrics_step ::
  "academic_db \<Rightarrow> nat set \<Rightarrow> enrollment \<Rightarrow> metrics_acc \<Rightarrow> py_error + metrics_acc" where
  "metrics_step db counted_ids e acc =
     (case grades db (enrollment_id e) of
        None \<Rightarrow> Inr (no_grade_branch counted_ids e acc)
      | Some g \<Rightarrow>
          if require_approved_for_metrics (policy db) \<and> status g \<noteq> STATUS_APPROVED
          then Inr acc
          else (case filter (\<lambda>s. grade_name s = grade g) (scale db) of
                  [] \<Rightarrow> Inr (no_grade_branch counted_ids e acc)
                | [grading_setting] \<Rightarrow> Inr (graded_branch counted_ids e grading_setting acc)
                | _ \<Rightarrow> Inl MultipleObjectsReturned))"

fun metrics_loop ::
  "academic_db \<Rightarrow> nat set \<Rightarrow> enrollment list \<Rightarrow> metrics_acc \<Rightarrow> py_error + metrics_acc" where
  "metrics_loop db counted_ids [] acc = Inr acc"
| "metrics_loop db counted_ids (e # es) acc =
     (case metrics_step db counted_ids e acc of
        Inl err \<Rightarrow> Inl err
      | Inr acc' \<Rightarrow> metrics_loop db counted_ids es acc')"

definition metrics_init :: metrics_acc where
  "metrics_init = \<lparr>total_grade_points = 0, total_units = 0, passed_units = 0, sessions_set = {}\<rparr>"

definition finish_metrics :: "metrics_acc \<Rightarrow> metrics" where
  "finish_metrics acc =
     \<lparr>current_cgpa =
        (if 0 < total_units acc
         then py_round2 (total_grade_points acc / real (total_units acc)) else 0),
      total_units_attempted = total_units acc,
      total_units_passed = passed_units acc,
      total_sessions_completed = card (sessions_set acc)\<rparr>"

text \<open>
  \<open>update_academic_metrics\<close> as a computation of the four metrics (the call with
  \<open>save=False\<close>); writing them to the student row, and the validation that runs on
  saving, are not part of it.
\<close>

definition update_academic_metrics :: "academic_db \<Rightarrow> student \<Rightarrow> py_error + metrics" where
  "update_academic_metrics db s =
     (let es = enrollment_set db s in
      case select_enrollments_for_gpa db es (Some (repeat_policy (policy db))) of
        Inl err \<Rightarrow> Inl err
      | Inr counted_ids \<Rightarrow>
          (case metrics_loop db counted_ids es metrics_init of
             Inl err \<Rightarrow> Inl err
           | Inr acc \<Rightarrow> Inr (finish_metrics acc)))"

section \<open>Graduation audit (academics/graduation.py)\<close>

record graduation_audit_result =
  eligible :: bool
  cgpa :: real
  total_units_earned :: nat
  missing_compulsory_courses :: "string list"
  classification :: "string option"
  audit_notes :: "string list"

text \<open>The helper \<open>_grade_point\<close>.\<close>

definition graduation_grade_point :: "academic_db \<Rightarrow> enrollment \<Rightarrow> bool \<Rightarrow> real option" where
  "graduation_grade_point db e require_approved =
     (case grades db (enrollment_id e) of
        None \<Rightarrow> None
      | Some g \<Rightarrow>
          if grade g = [] then None
          else if require_approved \<and> status g \<noteq> STATUS_APPROVED then None
          else (case scale_first db (grade g) of None \<Rightarrow> None | Some s \<Rightarrow> Some (grade_point s)))"

fun cgpa_loop :: "academic_db \<Rightarrow> bool \<Rightarrow> enrollment list \<Rightarrow> real \<times> nat \<Rightarrow> real \<times> nat" where
  "cgpa_loop db require_approved [] acc = acc"
| "cgpa_loop db require_approved (e # es) (points, n_units) =
     (case graduation_grade_point db e require_approved of
        None \<Rightarrow> cgpa_loop db require_approved es (points, n_units)
      | Some gp \<Rightarrow>
          cgpa_loop db require_approved es
            (points + real (units (course_of e)) * gp, n_units + units (course_of e)))"

definition compute_cgpa_for_program :: "academic_db \<Rightarrow> student \<Rightarrow> bool \<Rightarrow> real \<times> nat" where
  "compute_cgpa_for_program db s require_approved =
     (case cgpa_loop db require_approved (enrollment_set db s) (0, 0) of
        (points, n_units) \<Rightarrow>
          if n_units = 0 then (0, 0) else (py_round2 (points / real n_units), n_units))"

definition course_enrollments :: "academic_db \<Rightarrow> student \<Rightarrow> course \<Rightarrow> enrollment list" where
  "course_enrollments db s c =
     filter (\<lambda>e. student_ref e = student_pk s \<and> course_pk (course_of e) = course_pk c)
       (enrollments db)"

fun passed_loop :: "academic_db \<Rightarrow> bool \<Rightarrow> enrollment list \<Rightarrow> bool" where
  "passed_loop db require_approved [] = False"
| "passed_loop db require_approved (e # es) =
     (case graduation_grade_point db e require_approved of
        None \<Rightarrow> passed_loop db require_approved es
      | Some gp \<Rightarrow> if 0 < gp then True else passed_loop db require_approved es)"

definition passed_course :: "academic_db \<Rightarrow> student \<Rightarrow> course \<Rightarrow> bool \<Rightarrow> bool" where
  "passed_course db s c require_approved =
     passed_loop db require_approved (course_enrollments db s c)"

text \<open>
  \<open>program.classification_thresholds.all()\<close>: the program's rows in the model's
  ordering, descending \<open>min_cgpa\<close>.
\<close>

definition program_thresholds :: "academic_db \<Rightarrow> program \<Rightarrow> classification_threshold list" where
  "program_thresholds db p =
     sort_key (\<lambda>t. - min_cgpa t)
       (filter (\<lambda>t. threshold_program t = program_pk p) (classification_thresholds db))"

definition CLASS_SCHEME_BSC :: string where
  "CLASS_SCHEME_BSC = ''BSC''"

definition default_ladder :: "program \<Rightarrow> (string \<times> real) list" where
  "default_ladder p =
     (if classification_scheme p = CLASS_SCHEME_BSC then
        [(''First Class'', 7 / 2), (''Second Class Upper'', 3), (''Second Class Lower'', 2),
         (''Third Class'', 1), (''Fail'', 0)]
      else
        [(''Distinction'', 7 / 2), (''Upper Credit'', 3), (''Lower Credit'', 5 / 2),
         (''Pass'', 2), (''Fail'', 0)])"

definition classify :: "academic_db \<Rightarrow> program \<Rightarrow> real \<Rightarrow> string" where
  "classify db p c =
     (let thresholds = program_thresholds db p in
      if thresholds = [] then
        (case find (\<lambda>(l, m). m \<le> c) (default_ladder p) of
           Some (l, m) \<Rightarrow> l
         | None \<Rightarrow> ''Fail'')
      else
        (case find (\<lambda>t. min_cgpa t \<le> c) thresholds of
           Some t \<Rightarrow> label t
         | None \<Rightarrow> label (last thresholds)))"

definition audit_student_graduation :: "academic_db \<Rightarrow> student \<Rightarrow> graduation_audit_result" where
  "audit_student_graduation db s =
     (case program_of s of
        None \<Rightarrow>
          \<lparr>eligible = False, cgpa = 0, total_units_earned = 0, missing_compulsory_courses = [],
           classification = None, audit_notes = [''Student has no program assigned'']\<rparr>
      | Some p \<Rightarrow>
          (let require_approved = require_approved_for_metrics (policy db);
               (c, n_units) = compute_cgpa_for_program db s require_approved;
               compulsory =
                 filter (\<lambda>cc. cc_program cc = program_pk p \<and> is_compulsory cc) (curriculum db);
               missing =
                 map (\<lambda>cc. code (cc_course cc))
                   (filter (\<lambda>cc. \<not> passed_course db s (cc_course cc) require_approved) compulsory);
               notes1 =
                 (if missing \<noteq> []
                  then [''Missing compulsory courses: '' @ str_join '', '' (sort (remdups missing))]
                  else []);
               insufficient = (min_units_to_graduate p \<noteq> 0 \<and> n_units < min_units_to_graduate p);
               notes2 =
                 (if insufficient
                  then [''Insufficient units: '' @ str_nat n_units @ ''/''
                          @ str_nat (min_units_to_graduate p)]
                  else []);
               ok = (missing = [] \<and> \<not> insufficient)
           in \<lparr>eligible = ok, cgpa = c, total_units_earned = n_units,
               missing_compulsory_courses = sort (remdups missing),
               classification = (if ok then Some (classify db p c) else None),
               audit_notes = notes1 @ notes2\<rparr>))"

section \<open>Eligibility (academics/eligibility.py)\<close>

fun student_passed_loop :: "academic_db \<Rightarrow> bool \<Rightarrow> enrollment list \<Rightarrow> bool" where
  "student_passed_loop db require_approved [] = False"
| "student_passed_loop db require_approved (e # es) =
     (case grades db (enrollment_id e) of
        None \<Rightarrow> student_passed_loop db require_approved es
      | Some g \<Rightarrow>
          if grade g = [] then student_passed_loop db require_approved es
          else if require_approved \<and> status g \<noteq> STATUS_APPROVED
          then student_passed_loop db require_approved es
          else (case scale_first db (grade g) of
                  None \<Rightarrow> student_passed_loop db require_approved es
                | Some gs \<Rightarrow>
                    if 0 < grade_point gs then True
                    else student_passed_loop db require_approved es))"

definition student_passed_course :: "academic_db \<Rightarrow> student \<Rightarrow> course \<Rightarrow> bool" where
  "student_passed_course db s c =
     student_passed_loop db (require_approved_for_metrics (policy db)) (course_enrollments db s c)"



text \<open>
  The pass predicate in the specification's words: an attempt passes when its grade
  resolves to a grade point strictly above zero, only approved grades counting when
  approval is required.
\<close>

definition passing_attempt :: "academic_db \<Rightarrow> bool \<Rightarrow> enrollment \<Rightarrow> bool" where
  "passing_attempt db require_approved e =
     (\<exists>g gs. grades db (enrollment_id e) = Some g \<and> grade g \<noteq> [] \<and>
        (require_approved \<longrightarrow> status g = STATUS_APPROVED) \<and>
        scale_first db (grade g) = Some gs \<and> 0 < grade_point gs)"

section \<open>Canonical payload (reporting/canonical_payload.py)\<close>

text \<open>
  JSON-serialisable Python values. A \<open>dict\<close> is an association list in insertion order,
  its keys distinct.
\<close>

datatype json =
    JNull
  | JBool bool
  | JInt int
  | JFloat real
  | JStr string
  | JArr "json list"
  | JObj "(string \<times> json) list"

record college_settings =
  college_pk :: nat
  college_name :: "string option"
  college_address :: "string option"

definition json_opt_str :: "string option \<Rightarrow> json" where
  "json_opt_str v = (case v of None \<Rightarrow> JNull | Some s \<Rightarrow> JStr s)"

definition enrollment_item :: "academic_db \<Rightarrow> enrollment \<Rightarrow> json" where
  "enrollment_item db e =
     (let grade_obj = grades db (enrollment_id e);
          grade_name_v = (case grade_obj of None \<Rightarrow> JNull | Some g \<Rightarrow> JStr (grade g));
          total_score_v = (case grade_obj of None \<Rightarrow> JNull | Some g \<Rightarrow> JFloat (total_score g));
          grade_point_v =
            (case grade_obj of
               None \<Rightarrow> JNull
             | Some g \<Rightarrow>
                 if grade g = [] then JNull
                 else (case scale_first db (grade g) of
                         None \<Rightarrow> JNull
                       | Some gs \<Rightarrow> JFloat (grade_point gs)))
      in JObj [(''session'', json_opt_str (session_name e)),
               (''semester'', JStr (semester e)),
               (''course_code'', JStr (code (course_of e))),
               (''course_title'', JStr (title (course_of e))),
               (''units'', JInt (int (units (course_of e)))),
               (''grade'', grade_name_v),
               (''total_score'', total_score_v),
               (''grade_point'', grade_point_v)])"

definition build_canonical_transcript_payload ::
  "academic_db \<Rightarrow> student \<Rightarrow> enrollment list \<Rightarrow> college_settings option
     \<Rightarrow> (string \<times> json) list" where
  "build_canonical_transcript_payload db s es cs =
     [(''college'',
         JObj [(''name'', (case cs of None \<Rightarrow> JNull | Some c \<Rightarrow> json_opt_str (college_name c))),
               (''address'',
                  (case cs of None \<Rightarrow> JNull | Some c \<Rightarrow> json_opt_str (college_address c)))]),
      (''student'',
         JObj [(''student_id'', JStr (student_id s)),
               (''first_name'', JStr (first_name s)),
               (''last_name'', JStr (last_name s)),
               (''entry_level'', json_opt_str (entry_level s)),
               (''current_level'', json_opt_str (current_level s)),
               (''current_session'', json_opt_str (current_session s))]),
      (''enrollments'', JArr (map (enrollment_item db) es))]"

subsection \<open>\<open>json.dumps(payload, sort_keys=True, separators=(',', ':'), ensure_ascii=False)\<close>\<close>

definition hex_char :: "nat \<Rightarrow> char" where
  "hex_char d = ''0123456789abcdef'' ! d"

text \<open>
  The encoder escapes the quote, the backslash and the control characters below 0x20;
  with \<open>ensure_ascii=False\<close> every other byte is copied.
\<close>

definition escape_char :: "char \<Rightarrow> string" where
  "escape_char c =
     (if c = CHR 0x22 then [CHR 0x5C, CHR 0x22]
      else if c = CHR 0x5C then [CHR 0x5C, CHR 0x5C]
      else if c = CHR 0x0A then [CHR 0x5C, CHR ''n'']
      else if c = CHR 0x0D then [CHR 0x5C, CHR ''r'']
      else if c = CHR 0x09 then [CHR 0x5C, CHR ''t'']
      else if c = CHR 0x08 then [CHR 0x5C, CHR ''b'']
      else if c = CHR 0x0C then [CHR 0x5C, CHR ''f'']
      else if (of_char c :: nat) < 32
      then [CHR 0x5C, CHR ''u'', CHR ''0'', CHR ''0'',
            hex_char (of_char c div 16), hex_char (of_char c mod 16)]
      else [c])"

definition encode_string :: "string \<Rightarrow> string" where
  "encode_string s = [CHR 0x22] @ concat (map escape_char s) @ [CHR 0x22]"

definition str_int :: "int \<Rightarrow> string" where
  "str_int i = (if i < 0 then ''-'' @ str_nat (nat (- i)) else str_nat (nat i))"

text \<open>
  The textual form of a float is left to a parameter \<open>fr\<close> (Python's \<open>float.__repr__\<close>).
\<close>

fun dumps :: "(real \<Rightarrow> string) \<Rightarrow> json \<Rightarrow> string" where
  "dumps fr JNull = ''null''"
| "dumps fr (JBool b) = (if b then ''true'' else ''false'')"
| "dumps fr (JInt i) = str_int i"
| "dumps fr (JFloat x) = fr x"
| "dumps fr (JStr s) = encode_string s"
| "dumps fr (JArr xs) = ''['' @ str_join '','' (map (dumps fr) xs) @ '']''"
| "dumps fr (JObj kvs) =
     ''{'' @ str_join '',''
        (map (\<lambda>(k, v). encode_string k @ '':'' @ dumps fr v) (sort_key fst kvs)) @ ''}''"

definition canonical_json :: "(real \<Rightarrow> string) \<Rightarrow> json \<Rightarrow> string" where
  "canonical_json fr payload = dumps fr payload"

section \<open>Verification records (reporting/models.py, reporting/security_features.py)\<close>

text \<open>
  What the module takes from its surroundings: SHA-256 as a hexadecimal digest, the
  ISO formatting and parsing of timestamps (\<open>fromisoformat\<close> after replacing a final
  \<open>Z\<close>), the textual form of floats, \<open>str()\<close> of a value, and the settings
  \<open>SECRET_KEY\<close> and \<open>TRANSCRIPT_VERIFICATION_URL\<close>. Time is an integer number of
  microseconds.
\<close>

record environment =
  sha256_hexdigest :: "string \<Rightarrow> string"
  isoformat :: "int \<Rightarrow> string"
  fromisoformat :: "string \<Rightarrow> int option"
  float_repr :: "real \<Rightarrow> string"
  py_str :: "json \<Rightarrow> string"
  SECRET_KEY :: string
  base_verification_url :: string

text \<open>
  A row of TranscriptVerificationRecord. Every column but \<open>expires_at\<close> and
  \<open>revoked_at\<close> is declared without \<open>null=True\<close>.
\<close>

record verification_record =
  vr_student :: nat
  vr_student_name :: string
  generation_timestamp :: int
  document_hash :: string
  vr_college_name :: string
  verification_url :: string
  payload_json :: "(string \<times> json) list"
  created_at :: int
  expires_at :: "int option"
  revoked_at :: "int option"

text \<open>
  The durable table keyed by its unique verification code, the cache, and the Student
  table as a lookup from the unique \<open>student_id\<close> to the primary key.
\<close>

record verification_state =
  records :: "string \<rightharpoonup> verification_record"
  cache :: "string \<rightharpoonup> (string \<times> json) list"
  students :: "string \<rightharpoonup> nat"

datatype transcript_content = DictContent "(string \<times> json) list" | TextContent string

record security_features =
  sf_verification_code :: string
  qr_code_path :: string
  sf_document_hash :: string
  signature_data :: json
  sf_verification_url :: string
  sf_generation_timestamp :: int

record verify_result =
  valid :: bool
  error :: "string option"
  data :: "(string \<times> json) list option"
  verified_at :: string

definition verification_cache_timeout :: int where
  "verification_cache_timeout = 86400 * 30 * 1000000"

text \<open>\<open>d.get(k)\<close>, \<open>d[k] = v\<close> and the truth value of a Python object.\<close>

definition dict_get :: "(string \<times> json) list \<Rightarrow> string \<Rightarrow> json" where
  "dict_get d k = (case map_of d k of None \<Rightarrow> JNull | Some v \<Rightarrow> v)"

fun dict_set :: "string \<Rightarrow> json \<Rightarrow> (string \<times> json) list \<Rightarrow> (string \<times> json) list" where
  "dict_set k v [] = [(k, v)]"
| "dict_set k v ((k', v') # d) = (if k = k' then (k, v) # d else (k', v') # dict_set k v d)"

fun truthy :: "json \<Rightarrow> bool" where
  "truthy JNull = False"
| "truthy (JBool b) = b"
| "truthy (JInt i) = (i \<noteq> 0)"
| "truthy (JFloat x) = (x \<noteq> 0)"
| "truthy (JStr s) = (s \<noteq> [])"
| "truthy (JArr xs) = (xs \<noteq> [])"
| "truthy (JObj kvs) = (kvs \<noteq> [])"

definition is_active :: "verification_record \<Rightarrow> int \<Rightarrow> bool" where
  "is_active r now =
     (case revoked_at r of
        Some t \<Rightarrow> False
      | None \<Rightarrow> (case expires_at r of Some t \<Rightarrow> if t \<le> now then False else True | None \<Rightarrow> True))"

definition generate_verification_code :: "environment \<Rightarrow> string \<Rightarrow> int \<Rightarrow> string" where
  "generate_verification_code env sid generation_ts =
     (let hash_input = sid @ '':'' @ isoformat env generation_ts @ '':'' @ SECRET_KEY env
      in ''TXN-'' @ str_upper (take 12 (sha256_hexdigest env hash_input)))"

definition generate_document_hash :: "environment \<Rightarrow> string \<Rightarrow> string" where
  "generate_document_hash env transcript_text = sha256_hexdigest env transcript_text"

definition create_signature_data ::
  "environment \<Rightarrow> int \<Rightarrow> string \<Rightarrow> string \<Rightarrow> college_settings option \<Rightarrow> json" where
  "create_signature_data env now sid transcript_hash cs =
     JObj [(''student_id'', JStr sid),
           (''document_hash'', JStr transcript_hash),
           (''algorithm'', JStr ''SHA256''),
           (''timestamp'', JStr (isoformat env now)),
           (''issuer'',
              (case cs of None \<Rightarrow> JStr ''Unknown College'' | Some c \<Rightarrow> json_opt_str (college_name c))),
           (''issuer_id'', (case cs of None \<Rightarrow> JNull | Some c \<Rightarrow> JInt (int (college_pk c)))),
           (''signature_version'', JStr ''1.0'')]"

text \<open>
  \<open>store_verification_data\<close>. The cache is written first. The function returns
  \<open>False\<close>, leaving the table as it was, when the student identifier is missing or
  empty, when no student has it, when the timestamp does not parse or is no timestamp,
  and when a value for a column that is not nullable is \<open>None\<close> (the database rejects the row and the
  exception is caught). \<open>update_or_create\<close> overwrites the listed columns of an
  existing row and keeps its \<open>created_at\<close> and \<open>revoked_at\<close>. The JSON column
  returns the dictionary it was given; the length limits of the text columns and a
  failing cache or database connection are outside the model.
\<close>

text \<open>
  \<open>transcript_data.get(k, '')\<close> as the value of a text column that is not nullable:
  the default for an absent key, the string for a string, no acceptable value for
  \<open>None\<close>, and \<open>str()\<close> of any other value.
\<close>

definition text_column :: "environment \<Rightarrow> (string \<times> json) list \<Rightarrow> string \<Rightarrow> string option" where
  "text_column env d k =
     (case map_of d k of
        None \<Rightarrow> Some []
      | Some (JStr s) \<Rightarrow> Some s
      | Some JNull \<Rightarrow> None
      | Some v \<Rightarrow> Some (py_str env v))"

text \<open>
  The timestamp to store: a string is parsed, a value that counts as false is replaced
  by the current time, and any other value is not a timestamp.
\<close>

definition stored_timestamp :: "environment \<Rightarrow> int \<Rightarrow> json \<Rightarrow> int option" where
  "stored_timestamp env now v =
     (case v of
        JStr ts \<Rightarrow> fromisoformat env ts
      | _ \<Rightarrow> if truthy v then None else Some now)"

definition store_verification_data ::
  "environment \<Rightarrow> verification_state \<Rightarrow> int \<Rightarrow> string \<Rightarrow> (string \<times> json) list
     \<Rightarrow> bool \<times> verification_state" where
  "store_verification_data env st now verification_code transcript_data =
     (let verification_key = ''transcript_verify:'' @ verification_code;
          st1 = st\<lparr>cache := (cache st)(verification_key \<mapsto> transcript_data)\<rparr>
      in case dict_get transcript_data ''student_id'' of
           JStr sid \<Rightarrow>
             if sid = [] then (False, st1)
             else (case students st sid of
                None \<Rightarrow> (False, st1)
              | Some student_row \<Rightarrow>
                 (case stored_timestamp env now
                         (dict_get transcript_data ''generation_timestamp'') of
                    None \<Rightarrow> (False, st1)
                  | Some generation_ts \<Rightarrow>
                     (case (text_column env transcript_data ''student_name'',
                            text_column env transcript_data ''document_hash'',
                            text_column env transcript_data ''college_name'',
                            text_column env transcript_data ''verification_url'') of
                        (Some sname, Some dhash, Some cname, Some url) \<Rightarrow>
                          (let expiry = now + verification_cache_timeout;
                               row =
                                 (case records st verification_code of
                                    None \<Rightarrow>
                                      \<lparr>vr_student = student_row, vr_student_name = sname,
                                       generation_timestamp = generation_ts,
                                       document_hash = dhash, vr_college_name = cname,
                                       verification_url = url, payload_json = transcript_data,
                                       created_at = now, expires_at = Some expiry,
                                       revoked_at = None\<rparr>
                                  | Some old \<Rightarrow>
                                      old\<lparr>vr_student := student_row, vr_student_name := sname,
                                          generation_timestamp := generation_ts,
                                          document_hash := dhash, vr_college_name := cname,
                                          verification_url := url,
                                          payload_json := transcript_data,
                                          expires_at := Some expiry\<rparr>)
                           in (True, st1\<lparr>records := (records st1)(verification_code \<mapsto> row)\<rparr>))
                      | _ \<Rightarrow> (False, st1))))
         | _ \<Rightarrow> (False, st1))"

text \<open>
  \<open>verify_transcript\<close> reads the durable table, which answers every lookup; the
  handler that falls back to the cache when the database raises has no counterpart.
\<close>

definition verify_transcript ::
  "environment \<Rightarrow> verification_state \<Rightarrow> int \<Rightarrow> string
     \<Rightarrow> (string \<times> json) list option \<times> verification_state" where
  "verify_transcript env st now code_in =
     (let verification_code = str_upper (str_strip code_in);
          verification_key = ''transcript_verify:'' @ verification_code
      in case records st verification_code of
           None \<Rightarrow> (None, st)
         | Some r \<Rightarrow>
             if \<not> is_active r now then (None, st)
             else (let verification_data =
                         dict_set ''verified_at'' (JStr (isoformat env now)) (payload_json r)
                   in (Some verification_data,
                       st\<lparr>cache := (cache st)(verification_key \<mapsto> verification_data)\<rparr>)))"

definition TAMPER_REASON :: string where
  "TAMPER_REASON = ''Transcript data does not match stored hash (possible tampering)''"

definition INVALID_REASON :: string where
  "INVALID_REASON = ''Invalid or expired verification code''"

text \<open>
  \<open>_validate_tamper_evidence\<close>. Serialising a stored JSON value and hashing the text
  raise nothing here, so the branch answering \<open>Could not recompute document hash\<close> is
  never taken.
\<close>

definition validate_tamper_evidence ::
  "environment \<Rightarrow> (string \<times> json) list \<Rightarrow> bool \<times> string option" where
  "validate_tamper_evidence env verification_data =
     (let payload = dict_get verification_data ''canonical_payload'';
          stored_hash = dict_get verification_data ''document_hash''
      in if \<not> truthy payload \<or> \<not> truthy stored_hash then (True, None)
         else (let recomputed = generate_document_hash env (canonical_json (float_repr env) payload)
               in if JStr recomputed \<noteq> stored_hash then (False, Some TAMPER_REASON)
                  else (True, None)))"

text \<open>
  \<open>create_secure_transcript_data\<close>, with the document hash and the dictionary
  \<open>verification_data\<close> it builds named on their own. The result of
  \<open>store_verification_data\<close> is not inspected. Drawing the QR image is left out; only
  its path is kept.
\<close>

definition content_document_hash :: "environment \<Rightarrow> transcript_content \<Rightarrow> string" where
  "content_document_hash env content =
     (case content of
        DictContent d \<Rightarrow> generate_document_hash env (canonical_json (float_repr env) (JObj d))
      | TextContent t \<Rightarrow> generate_document_hash env t)"

definition issue_verification_data ::
  "environment \<Rightarrow> int \<Rightarrow> student \<Rightarrow> transcript_content \<Rightarrow> college_settings option
     \<Rightarrow> (string \<times> json) list" where
  "issue_verification_data env now s content cs =
     (let verification_code = generate_verification_code env (student_id s) now;
          dhash = content_document_hash env content
      in [(''student_id'', JStr (student_id s)),
          (''student_name'', JStr (first_name s @ '' '' @ last_name s)),
          (''generation_timestamp'', JStr (isoformat env now)),
          (''document_hash'', JStr dhash),
          (''signature_data'', create_signature_data env now (student_id s) dhash cs),
          (''college_name'',
             (case cs of None \<Rightarrow> JStr ''Unknown'' | Some c \<Rightarrow> json_opt_str (college_name c))),
          (''verification_url'', JStr (base_verification_url env @ ''?code='' @ verification_code)),
          (''canonical_payload'',
             (case content of DictContent d \<Rightarrow> JObj d | TextContent t \<Rightarrow> JNull))])"

definition create_secure_transcript_data ::
  "environment \<Rightarrow> verification_state \<Rightarrow> int \<Rightarrow> student \<Rightarrow> transcript_content
     \<Rightarrow> college_settings option \<Rightarrow> security_features \<times> verification_state" where
  "create_secure_transcript_data env st now s content cs =
     (let verification_code = generate_verification_code env (student_id s) now;
          dhash = content_document_hash env content;
          verification_data = issue_verification_data env now s content cs;
          (stored, st') = store_verification_data env st now verification_code verification_data
      in (\<lparr>sf_verification_code = verification_code,
           qr_code_path = ''tmp/qr_code_'' @ verification_code @ ''.png'',
           sf_document_hash = dhash,
           signature_data = create_signature_data env now (student_id s) dhash cs,
           sf_verification_url = base_verification_url env @ ''?code='' @ verification_code,
           sf_generation_timestamp = now\<rparr>, st'))"

definition verify_transcript_security ::
  "environment \<Rightarrow> verification_state \<Rightarrow> int \<Rightarrow> string \<Rightarrow> verify_result \<times> verification_state" where
  "verify_transcript_security env st now code_in =
     (case verify_transcript env st now code_in of
        (None, st') \<Rightarrow>
          (\<lparr>valid = False, error = Some INVALID_REASON, data = None,
            verified_at = isoformat env now\<rparr>, st')
      | (Some verification_data, st') \<Rightarrow>
          if verification_data = [] then
            (\<lparr>valid = False, error = Some INVALID_REASON, data = None,
              verified_at = isoformat env now\<rparr>, st')
          else (case validate_tamper_evidence env verification_data of
                  (ok, err) \<Rightarrow>
                    if \<not> ok then
                      (\<lparr>valid = False, error = err, data = Some verification_data,
                        verified_at = isoformat env now\<rparr>, st')
                    else
                      (\<lparr>valid = True, error = None, data = Some verification_data,
                        verified_at = isoformat env now\<rparr>, st')))"

section \<open>Auxiliary notions and fixtures\<close>

text \<open>All attempts recorded in a grouping, whatever their course code.\<close>

fun groups_members :: "('k \<times> 'a list) list \<Rightarrow> 'a set" where
  "groups_members [] = {}"
| "groups_members ((k, vs) # m) = set vs \<union> groups_members m"

subsection \<open>A repeated course: the test fixture of students/test_repeat_policy.py\<close>

definition pol101 :: course where
  "pol101 = \<lparr>course_pk = 31, code = ''POL101'', title = ''Policy'', units = 3\<rparr>"

definition attempt1 :: enrollment where
  "attempt1 = \<lparr>enrollment_id = 11, student_ref = 7, course_of = pol101, session_pk = 21,
     session_name = Some ''2023/2024'', semester = ''FIRST''\<rparr>"

definition attempt2 :: enrollment where
  "attempt2 = \<lparr>enrollment_id = 12, student_ref = 7, course_of = pol101, session_pk = 22,
     session_name = Some ''2024/2025'', semester = ''FIRST''\<rparr>"

definition scale_AC :: "grading_settings list" where
  "scale_AC =
     [\<lparr>grade_name = ''A'', min_score = 90, max_score = 100, grade_point = 4\<rparr>,
      \<lparr>grade_name = ''C'', min_score = 70, max_score = 79, grade_point = 2\<rparr>]"

definition repeat_db :: "string \<Rightarrow> academic_db" where
  "repeat_db rp =
     \<lparr>enrollments = [attempt1, attempt2],
      grades = [11 \<mapsto> \<lparr>grade = ''C'', total_score = 70, status = ''DRAFT''\<rparr>,
                12 \<mapsto> \<lparr>grade = ''A'', total_score = 90, status = ''DRAFT''\<rparr>],
      scale = scale_AC,
      policy = \<lparr>repeat_policy = rp, require_approved_for_metrics = False\<rparr>,
      curriculum = [], prerequisites = [], classification_thresholds = []\<rparr>"

subsection \<open>A student, a programme and further attempts\<close>

definition bsc_cs :: program where
  "bsc_cs = \<lparr>program_pk = 5, min_units_to_graduate = 3, classification_scheme = ''BSC''\<rparr>"

definition student1 :: student where
  "student1 = \<lparr>student_pk = 7, student_id = ''POL1'', first_name = ''Pol'', last_name = ''Icy'',
     entry_level = Some ''100 Level'', current_level = Some ''100 Level'',
     current_session = Some ''2024/2025'', program_of = Some bsc_cs\<rparr>"



definition attempt3 :: enrollment where
  "attempt3 = \<lparr>enrollment_id = 13, student_ref = 7, course_of = pol101, session_pk = 23,
     session_name = Some ''2025/2026'', semester = ''FIRST''\<rparr>"

definition failing_grade :: grade_row where
  "failing_grade = \<lparr>grade = ''F'', total_score = 30, status = ''DRAFT''\<rparr>"


text \<open>Approval required while both grades are still drafts; and a compulsory POL101.\<close>

definition gated_db :: academic_db where
  "gated_db = (repeat_db ''ALL'')
     \<lparr>policy := \<lparr>repeat_policy = ''ALL'', require_approved_for_metrics = True\<rparr>\<rparr>"

definition audit_db :: "string \<Rightarrow> academic_db" where
  "audit_db rp = (repeat_db rp)
     \<lparr>curriculum := [\<lparr>cc_program = 5, cc_course = pol101, is_compulsory = True\<rparr>]\<rparr>"

text \<open>
  An enrollment on which the audit and the metrics computation treat alike: its grade is
  skipped by approval gating, or it has a letter matching exactly one scale entry.
\<close>

definition resolves_or_gated :: "academic_db \<Rightarrow> enrollment \<Rightarrow> bool" where
  "resolves_or_gated db e =
     (case grades db (enrollment_id e) of
        None \<Rightarrow> False
      | Some g \<Rightarrow>
          (require_approved_for_metrics (policy db) \<and> status g \<noteq> STATUS_APPROVED) \<or>
          (grade g \<noteq> [] \<and> length (filter (\<lambda>s. grade_name s = grade g) (scale db)) = 1))"


text \<open>Policy LATEST and a single attempt at POL101, so that no attempt is dropped.\<close>

definition single_db :: academic_db where
  "single_db = (audit_db ''LATEST'')\<lparr>enrollments := [attempt2]\<rparr>"

text \<open>No grade has been entered yet.\<close>

definition ungraded_db :: academic_db where
  "ungraded_db = (audit_db ''ALL'')\<lparr>grades := Map.empty\<rparr>"



subsection \<open>Issuing and verifying: a concrete environment\<close>

definition zero_digest :: string where
  "zero_digest = ''0000000000000000000000000000000000000000000000000000000000000000''"

definition env0 :: environment where
  "env0 = \<lparr>sha256_hexdigest = (\<lambda>s. zero_digest),
            isoformat = (\<lambda>t. str_int t),
            fromisoformat = (\<lambda>s. Some 0),
            float_repr = (\<lambda>x. ''0.0''),
            py_str = (\<lambda>v. []),
            SECRET_KEY = ''k'',
            base_verification_url = ''https://college.edu/verify''\<rparr>"

definition unnamed_college :: college_settings where
  "unnamed_college = \<lparr>college_pk = 1, college_name = None, college_address = None\<rparr>"

definition state0 :: verification_state where
  "state0 = \<lparr>records = Map.empty, cache = Map.empty, students = [''POL1'' \<mapsto> 7]\<rparr>"

definition sample_payload :: "(string \<times> json) list" where
  "sample_payload = [(''student'', JObj [(''last_name'', JStr ''Icy'')]), (''enrollments'', JArr [])]"

definition stored_record :: "(string \<times> json) list \<Rightarrow> verification_record" where
  "stored_record d =
     \<lparr>vr_student = 7, vr_student_name = ''Pol Icy'', generation_timestamp = 0,
      document_hash = zero_digest, vr_college_name = ''Unknown'',
      verification_url = ''https://college.edu/verify?code=TXN-AB12'', payload_json = d,
      created_at = 0, expires_at = Some 100, revoked_at = None\<rparr>"

definition state1 :: verification_state where
  "state1 = state0\<lparr>records :=
     [''TXN-AB12'' \<mapsto> stored_record
        [(''document_hash'', JStr zero_digest),
         (''canonical_payload'', JObj sample_payload)]]\<rparr>"

text \<open>A database that differs from the fixture in rows no transcript of the student reads.\<close>

definition other_db :: academic_db where
  "other_db = (audit_db ''LATEST'')\<lparr>grades := (grades (audit_db ''LATEST''))(99 \<mapsto> failing_grade)\<rparr>"

section \<open>Properties of attempt selection\<close>

lemma groups_members_setdefault_append:
  "groups_members (setdefault_append k e m) = insert e (groups_members m)"
  by (induction m) (auto split: if_splits)

lemma groups_members_fold:
  "groups_members (fold (\<lambda>e m. setdefault_append (f e) e m) es m) = groups_members m \<union> set es"
  by (induction es arbitrary: m) (auto simp: groups_members_setdefault_append)

lemma groups_members_by_course: "groups_members (by_course es) = set es"
  by (simp add: by_course_def groups_members_fold)

lemma choose_loop_unknown:
  "rp \<noteq> ''LATEST'' \<Longrightarrow> rp \<noteq> ''BEST'' \<Longrightarrow>
   choose_loop db rp groups chosen = Inr (chosen \<union> enrollment_id ` groups_members groups)"
proof (induction groups arbitrary: chosen)
  case Nil
  show ?case by simp
next
  case (Cons g groups)
  obtain k vs where g: "g = (k, vs)" by (cases g)
  show ?case using Cons.prems
    by (simp add: g choose_step_def Cons.IH image_Un Un_assoc)
qed







lemma normalise_policy_simps:
  "normalise_policy None = ''ALL''"
  "normalise_policy (Some '''') = ''ALL''"
  "normalise_policy (Some ''ALL'') = ''ALL''"
  "normalise_policy (Some ''LATEST'') = ''LATEST''"
  "normalise_policy (Some ''BEST'') = ''BEST''"
  "normalise_policy (Some ''latest'') = ''LATEST''"
  by (simp_all add: normalise_policy_def str_upper_def upper_char_def)

lemma term_sort_key_attempts:
  "term_sort_key attempt1 = (2023, 1)" "term_sort_key attempt2 = (2024, 1)"
  by (simp_all add: term_sort_key_def attempt1_def attempt2_def session_sort_key_def
      is_digit_def int_of_digits_def digit_val_def SEMESTER_ORDER_def)

lemma by_course_attempts: "by_course [attempt1, attempt2] = [(''POL101'', [attempt1, attempt2])]"
  by (simp add: by_course_def attempt1_def attempt2_def pol101_def)

lemma select_latest_attempts:
  "select_enrollments_for_gpa db [attempt1, attempt2] (Some ''latest'') = Inr {12}"
  "select_enrollments_for_gpa db [attempt1, attempt2] (Some ''LATEST'') = Inr {12}"
  by (simp_all add: select_enrollments_for_gpa_def normalise_policy_simps by_course_attempts
      choose_step_def py_max_def term_sort_key_attempts)
    (simp_all add: attempt2_def)

lemma select_all_ids:
  assumes "normalise_policy p \<noteq> ''LATEST''" and "normalise_policy p \<noteq> ''BEST''"
  shows "select_enrollments_for_gpa db es p = Inr (enrollment_id ` set es)"
  using assms
  by (simp add: select_enrollments_for_gpa_def Let_def choose_loop_unknown
      groups_members_by_course)

text \<open>
  C4 (as amended). The policy string is upper-cased before it is compared, and \<open>None\<close>
  or the empty string is replaced by \<open>'ALL'\<close>. Whenever the normalised value is neither
  \<open>'LATEST'\<close> nor \<open>'BEST'\<close> (so for \<open>'ALL'\<close>, for a missing policy and for every
  unknown value) the function returns the identifiers of every attempt it was given.
\<close>

theorem select_counts_all_unless_latest_or_best:
  assumes "normalise_policy p \<notin> {''LATEST'', ''BEST''}"
  shows "select_enrollments_for_gpa db es p = Inr (enrollment_id ` set es)"
  using assms by (intro select_all_ids) simp_all

theorem select_counts_all_unless_latest_or_best_witness:
  "normalise_policy (Some ''REPLACE'') \<notin> {''LATEST'', ''BEST''} \<and>
   normalise_policy None \<notin> {''LATEST'', ''BEST''} \<and>
   select_enrollments_for_gpa (repeat_db ''REPLACE'') [attempt1, attempt2] (Some ''REPLACE'')
     = Inr {11, 12} \<and>
   select_enrollments_for_gpa (repeat_db ''REPLACE'') [attempt1, attempt2] None = Inr {11, 12}"
proof -
  have u: "normalise_policy (Some ''REPLACE'') \<notin> {''LATEST'', ''BEST''}"
    by (simp add: normalise_policy_def str_upper_def upper_char_def)
  have n: "normalise_policy None \<notin> {''LATEST'', ''BEST''}"
    by (simp add: normalise_policy_simps)
  have ids: "enrollment_id ` set [attempt1, attempt2] = {11, 12}"
    by (simp add: attempt1_def attempt2_def)
  show ?thesis
    using select_counts_all_unless_latest_or_best[OF u, of "repeat_db ''REPLACE''" "[attempt1, attempt2]"]
      select_counts_all_unless_latest_or_best[OF n, of "repeat_db ''REPLACE''" "[attempt1, attempt2]"]
      u n ids
    by simp
qed

text \<open>
  C4 as stated fails: the lower-case value \<open>'latest'\<close> is not one of \<open>'ALL'\<close>,
  \<open>'LATEST'\<close>, \<open>'BEST'\<close>, yet it is upper-cased and handled as LATEST, so only the
  later of two attempts at POL101 is returned.
\<close>

theorem select_lowercase_latest_counterexample:
  "\<not> (''latest'' \<notin> {''ALL'', ''LATEST'', ''BEST''} \<longrightarrow>
      select_enrollments_for_gpa (repeat_db ''latest'') [attempt1, attempt2] (Some ''latest'')
        = Inr (enrollment_id ` set [attempt1, attempt2]))"
  by (simp add: select_latest_attempts) (simp add: attempt1_def attempt2_def)





section \<open>Properties of the pass predicate and the prerequisite check\<close>

lemma student_passed_loop_iff:
  "student_passed_loop db req es = (\<exists>e \<in> set es. passing_attempt db req e)"
  by (induction es) (auto simp: passing_attempt_def split: option.splits)

lemma graduation_grade_point_passing:
  "passing_attempt db req e = (\<exists>gp. graduation_grade_point db e req = Some gp \<and> 0 < gp)"
  by (auto simp: passing_attempt_def graduation_grade_point_def split: option.splits)

lemma passed_loop_iff:
  "passed_loop db req es = (\<exists>e \<in> set es. passing_attempt db req e)"
  by (induction es) (auto simp: graduation_grade_point_passing split: option.splits)

lemma student_passed_course_iff:
  "student_passed_course db s c =
     (\<exists>e \<in> set (course_enrollments db s c).
        passing_attempt db (require_approved_for_metrics (policy db)) e)"
  by (simp add: student_passed_course_def student_passed_loop_iff)

lemma passed_course_iff:
  "passed_course db s c req = (\<exists>e \<in> set (course_enrollments db s c). passing_attempt db req e)"
  by (simp add: passed_course_def passed_loop_iff)

lemma passing_attempt_new_grade:
  assumes "enrollment_id e \<noteq> k"
  shows "passing_attempt (db\<lparr>enrollments := es', grades := (grades db)(k := g')\<rparr>) req e
           = passing_attempt db req e"
  using assms by (simp add: passing_attempt_def scale_first_def)

lemma student1_passed_pol101:
  "student_passed_course (repeat_db rp) student1 pol101"
  by (simp add: student_passed_course_def course_enrollments_def repeat_db_def student1_def
      attempt1_def attempt2_def pol101_def scale_first_def scale_AC_def STATUS_APPROVED_def)

text \<open>
  C10. Both pass predicates (\<open>student_passed_course\<close> of the eligibility module,
  \<open>passed_course\<close> of the graduation module) hold exactly when some enrollment of the
  student in the course is a passing attempt: its grade resolves to a grade point
  strictly above zero, only approved grades counting when approval is required. Neither
  depends on the repeat policy, and recording a further attempt, whatever its grade,
  never turns a pass into a failure.
\<close>

theorem pass_predicate_existential:
  "(student_passed_course db s c =
      (\<exists>e \<in> set (course_enrollments db s c).
         passing_attempt db (require_approved_for_metrics (policy db)) e)) \<and>
   (passed_course db s c req =
      (\<exists>e \<in> set (course_enrollments db s c). passing_attempt db req e)) \<and>
   student_passed_course (db\<lparr>policy := (policy db)\<lparr>repeat_policy := rp\<rparr>\<rparr>) s c
     = student_passed_course db s c \<and>
   passed_course (db\<lparr>policy := (policy db)\<lparr>repeat_policy := rp\<rparr>\<rparr>) s c req
     = passed_course db s c req \<and>
   (student_passed_course db s c \<and> enrollment_id e' \<notin> enrollment_id ` set (enrollments db) \<longrightarrow>
      student_passed_course
        (db\<lparr>enrollments := enrollments db @ [e'],
            grades := (grades db)(enrollment_id e' := g')\<rparr>) s c)"
proof (intro conjI)
  show "student_passed_course db s c =
      (\<exists>e \<in> set (course_enrollments db s c).
         passing_attempt db (require_approved_for_metrics (policy db)) e)"
    by (rule student_passed_course_iff)
  show "passed_course db s c req =
      (\<exists>e \<in> set (course_enrollments db s c). passing_attempt db req e)"
    by (rule passed_course_iff)
  show "student_passed_course (db\<lparr>policy := (policy db)\<lparr>repeat_policy := rp\<rparr>\<rparr>) s c
     = student_passed_course db s c"
    by (simp add: student_passed_course_iff course_enrollments_def passing_attempt_def
        scale_first_def)
  show "passed_course (db\<lparr>policy := (policy db)\<lparr>repeat_policy := rp\<rparr>\<rparr>) s c req
     = passed_course db s c req"
    by (simp add: passed_course_iff course_enrollments_def passing_attempt_def scale_first_def)
  show "student_passed_course db s c \<and> enrollment_id e' \<notin> enrollment_id ` set (enrollments db) \<longrightarrow>
      student_passed_course
        (db\<lparr>enrollments := enrollments db @ [e'],
            grades := (grades db)(enrollment_id e' := g')\<rparr>) s c"
  proof
    let ?db' = "db\<lparr>enrollments := enrollments db @ [e'],
            grades := (grades db)(enrollment_id e' := g')\<rparr>"
    assume a: "student_passed_course db s c \<and> enrollment_id e' \<notin> enrollment_id ` set (enrollments db)"
    then obtain e where e: "e \<in> set (course_enrollments db s c)"
      "passing_attempt db (require_approved_for_metrics (policy db)) e"
      by (auto simp: student_passed_course_iff)
    from e(1) have mem: "e \<in> set (enrollments db)" by (simp add: course_enrollments_def)
    with a have ne: "enrollment_id e \<noteq> enrollment_id e'" by (metis imageI)
    have "e \<in> set (course_enrollments ?db' s c)"
      using e(1) by (simp add: course_enrollments_def)
    moreover have "passing_attempt ?db' (require_approved_for_metrics (policy ?db')) e"
      using e(2) passing_attempt_new_grade[OF ne, of db] by simp
    ultimately show "student_passed_course ?db' s c"
      unfolding student_passed_course_iff by blast
  qed
qed

theorem pass_predicate_existential_witness:
  "student_passed_course (repeat_db ''LATEST'') student1 pol101 \<and>
   enrollment_id attempt3 \<notin> enrollment_id ` set (enrollments (repeat_db ''LATEST'')) \<and>
   student_passed_course
     ((repeat_db ''LATEST'')\<lparr>enrollments := enrollments (repeat_db ''LATEST'') @ [attempt3],
        grades := (grades (repeat_db ''LATEST''))(enrollment_id attempt3 := Some failing_grade)\<rparr>)
     student1 pol101"
proof -
  have h1: "student_passed_course (repeat_db ''LATEST'') student1 pol101"
    by (rule student1_passed_pol101)
  have h2: "enrollment_id attempt3 \<notin> enrollment_id ` set (enrollments (repeat_db ''LATEST''))"
    by (simp add: repeat_db_def attempt1_def attempt2_def attempt3_def)
  show ?thesis
    using pass_predicate_existential[of "repeat_db ''LATEST''" student1 pol101 False
        "''LATEST''" attempt3 "Some failing_grade"] h1 h2
    by blast
qed







section \<open>Properties of the metrics computation and the graduation audit\<close>



lemma enrollment_set_fixture:
  "enrollment_set (repeat_db rp) student1 = [attempt1, attempt2]"
  "enrollment_set gated_db student1 = [attempt1, attempt2]"
  "enrollment_set (audit_db rp) student1 = [attempt1, attempt2]"
  by (simp_all add: enrollment_set_def repeat_db_def gated_db_def audit_db_def student1_def
      attempt1_def attempt2_def)

lemma ids_fixture: "enrollment_id attempt1 = 11" "enrollment_id attempt2 = 12"
  by (simp_all add: attempt1_def attempt2_def)

lemma units_fixture: "units (course_of attempt1) = 3" "units (course_of attempt2) = 3"
  by (simp_all add: attempt1_def attempt2_def pol101_def)


lemma metrics_latest:
  "update_academic_metrics (audit_db ''LATEST'') student1 =
     Inr \<lparr>current_cgpa = 4, total_units_attempted = 3, total_units_passed = 6,
          total_sessions_completed = 2\<rparr>"
proof -
  have pol: "repeat_policy (policy (audit_db ''LATEST'')) = ''LATEST''"
    by (simp add: audit_db_def repeat_db_def)
  have sel: "select_enrollments_for_gpa (audit_db ''LATEST'') [attempt1, attempt2]
      (Some ''LATEST'') = Inr {12}"
    by (rule select_latest_attempts(2))
  have step1: "metrics_step (audit_db ''LATEST'') {12} attempt1 metrics_init =
      Inr \<lparr>total_grade_points = 0, total_units = 0, passed_units = 3, sessions_set = {21}\<rparr>"
    by (simp add: metrics_step_def audit_db_def repeat_db_def scale_AC_def attempt1_def
        pol101_def metrics_init_def graded_branch_def)
  have step2: "metrics_step (audit_db ''LATEST'') {12} attempt2
      \<lparr>total_grade_points = 0, total_units = 0, passed_units = 3, sessions_set = {21}\<rparr> =
      Inr \<lparr>total_grade_points = 12, total_units = 3, passed_units = 6, sessions_set = {22, 21}\<rparr>"
    by (simp add: metrics_step_def audit_db_def repeat_db_def scale_AC_def attempt2_def
        pol101_def graded_branch_def)
  have loop: "metrics_loop (audit_db ''LATEST'') {12} [attempt1, attempt2] metrics_init =
      Inr \<lparr>total_grade_points = 12, total_units = 3, passed_units = 6, sessions_set = {22, 21}\<rparr>"
    by (simp add: step1 step2)
  show ?thesis
    by (simp only: update_academic_metrics_def enrollment_set_fixture pol Let_def sel sum.case loop)
      (simp add: finish_metrics_def py_round2_def round_half_even_def)
qed

lemma gp_fixture:
  "graduation_grade_point (audit_db rp) attempt1 False = Some 2"
  "graduation_grade_point (audit_db rp) attempt2 False = Some 4"
  by (simp_all add: graduation_grade_point_def audit_db_def repeat_db_def scale_first_def
      scale_AC_def attempt1_def attempt2_def)

lemma compute_cgpa_fixture:
  "compute_cgpa_for_program (audit_db rp) student1 False = (3, 6)"
proof -
  have loop: "cgpa_loop (audit_db rp) False [attempt1, attempt2] (0, 0) = (18, 6)"
    by (simp add: gp_fixture units_fixture)
  show ?thesis
    unfolding compute_cgpa_for_program_def enrollment_set_fixture loop
    by (simp add: py_round2_def round_half_even_def)
qed

lemma audit_fixture:
  "audit_student_graduation (audit_db rp) student1 =
     \<lparr>eligible = True, cgpa = 3, total_units_earned = 6, missing_compulsory_courses = [],
      classification = Some ''Second Class Upper'', audit_notes = []\<rparr>"
proof -
  have req: "require_approved_for_metrics (policy (audit_db rp)) = False"
    by (simp add: audit_db_def repeat_db_def)
  have cur: "curriculum (audit_db rp) = [\<lparr>cc_program = 5, cc_course = pol101, is_compulsory = True\<rparr>]"
    by (simp add: audit_db_def)
  have passed: "passed_course (audit_db rp) student1 pol101 False"
    by (simp add: passed_course_def course_enrollments_def audit_db_def repeat_db_def
        student1_def attempt1_def attempt2_def pol101_def graduation_grade_point_def
        scale_first_def scale_AC_def)
  have cls: "classify (audit_db rp) bsc_cs 3 = ''Second Class Upper''"
    by (simp add: classify_def program_thresholds_def audit_db_def repeat_db_def
        default_ladder_def bsc_cs_def CLASS_SCHEME_BSC_def)
  have prog: "program_of student1 = Some bsc_cs" by (simp add: student1_def)
  show ?thesis
    by (simp add: audit_student_graduation_def prog req compute_cgpa_fixture cur passed cls)
      (simp add: bsc_cs_def)
qed



lemma filter_single_find: "filter P xs = [x] \<Longrightarrow> find P xs = Some x"
proof (induction xs)
  case Nil
  then show ?case by simp
next
  case (Cons y ys)
  show ?case
  proof (cases "P y")
    case True
    with Cons.prems show ?thesis by simp
  next
    case False
    with Cons show ?thesis by simp
  qed
qed

lemma length_one_single: "length xs = 1 \<Longrightarrow> \<exists>x. xs = [x]"
  by (cases xs) auto

lemma resolves_or_gatedE:
  assumes "resolves_or_gated db e"
  obtains g where "grades db (enrollment_id e) = Some g"
    "require_approved_for_metrics (policy db) \<and> status g \<noteq> STATUS_APPROVED"
  | g gs where "grades db (enrollment_id e) = Some g"
    "\<not> (require_approved_for_metrics (policy db) \<and> status g \<noteq> STATUS_APPROVED)"
    "grade g \<noteq> []" "filter (\<lambda>s. grade_name s = grade g) (scale db) = [gs]"
proof (cases "grades db (enrollment_id e)")
  case None
  with assms show ?thesis by (simp add: resolves_or_gated_def)
next
  case (Some g)
  show ?thesis
  proof (cases "require_approved_for_metrics (policy db) \<and> status g \<noteq> STATUS_APPROVED")
    case True
    with Some that(1) show ?thesis by blast
  next
    case False
    with assms Some have ne: "grade g \<noteq> []"
      and one: "length (filter (\<lambda>s. grade_name s = grade g) (scale db)) = 1"
      unfolding resolves_or_gated_def by simp_all
    from length_one_single[OF one] obtain gs
      where "filter (\<lambda>s. grade_name s = grade g) (scale db) = [gs]" by blast
    with Some False ne that(2) show ?thesis by blast
  qed
qed

lemma metrics_step_matches:
  assumes "resolves_or_gated db e" and "enrollment_id e \<in> counted"
  shows "\<exists>acc'. metrics_step db counted e acc = Inr acc' \<and>
           (total_grade_points acc', total_units acc') =
             (case graduation_grade_point db e (require_approved_for_metrics (policy db)) of
                None \<Rightarrow> (total_grade_points acc, total_units acc)
              | Some gp \<Rightarrow> (total_grade_points acc + real (units (course_of e)) * gp,
                            total_units acc + units (course_of e)))"
  using assms(1)
proof (cases rule: resolves_or_gatedE)
  case (1 g)
  have "metrics_step db counted e acc = Inr acc"
    using 1 by (simp add: metrics_step_def)
  moreover have "graduation_grade_point db e (require_approved_for_metrics (policy db)) = None"
    using 1 by (simp add: graduation_grade_point_def)
  ultimately show ?thesis by simp
next
  case (2 g gs)
  have f: "scale_first db (grade g) = Some gs"
    unfolding scale_first_def by (rule filter_single_find[OF 2(4)])
  have "metrics_step db counted e acc = Inr (graded_branch counted e gs acc)"
    using 2 by (auto simp: metrics_step_def)
  moreover have "graduation_grade_point db e (require_approved_for_metrics (policy db))
      = Some (grade_point gs)"
    using 2 f by (auto simp: graduation_grade_point_def)
  moreover have "total_grade_points (graded_branch counted e gs acc)
      = total_grade_points acc + real (units (course_of e)) * grade_point gs"
    "total_units (graded_branch counted e gs acc) = total_units acc + units (course_of e)"
    using assms(2) by (simp_all add: graded_branch_def Let_def)
  ultimately show ?thesis by simp
qed

lemma metrics_loop_matches:
  assumes "\<forall>e \<in> set es. resolves_or_gated db e \<and> enrollment_id e \<in> counted"
  shows "\<exists>acc'. metrics_loop db counted es acc = Inr acc' \<and>
           (total_grade_points acc', total_units acc') =
             cgpa_loop db (require_approved_for_metrics (policy db)) es
               (total_grade_points acc, total_units acc)"
  using assms
proof (induction es arbitrary: acc)
  case Nil
  show ?case by simp
next
  case (Cons e es)
  from Cons.prems have e: "resolves_or_gated db e" "enrollment_id e \<in> counted"
    and rest: "\<forall>x \<in> set es. resolves_or_gated db x \<and> enrollment_id x \<in> counted" by auto
  from metrics_step_matches[OF e, of acc] obtain acc1
    where s1: "metrics_step db counted e acc = Inr acc1"
      and v1: "(total_grade_points acc1, total_units acc1) =
             (case graduation_grade_point db e (require_approved_for_metrics (policy db)) of
                None \<Rightarrow> (total_grade_points acc, total_units acc)
              | Some gp \<Rightarrow> (total_grade_points acc + real (units (course_of e)) * gp,
                            total_units acc + units (course_of e)))" by blast
  from Cons.IH[OF rest, of acc1] obtain acc2
    where s2: "metrics_loop db counted es acc1 = Inr acc2"
      and v2: "(total_grade_points acc2, total_units acc2) =
             cgpa_loop db (require_approved_for_metrics (policy db)) es
               (total_grade_points acc1, total_units acc1)" by blast
  have "cgpa_loop db (require_approved_for_metrics (policy db)) (e # es)
               (total_grade_points acc, total_units acc)
        = cgpa_loop db (require_approved_for_metrics (policy db)) es
               (total_grade_points acc1, total_units acc1)"
    using v1 by (simp split: option.splits)
  with s1 s2 v2 show ?case by simp
qed

lemma metrics_matches_compute:
  assumes sel: "select_enrollments_for_gpa db (enrollment_set db s)
        (Some (repeat_policy (policy db))) = Inr (enrollment_id ` set (enrollment_set db s))"
    and res: "\<forall>e \<in> set (enrollment_set db s). resolves_or_gated db e"
  shows "\<exists>m. update_academic_metrics db s = Inr m \<and>
           (current_cgpa m, total_units_attempted m) =
             compute_cgpa_for_program db s (require_approved_for_metrics (policy db))"
proof -
  let ?es = "enrollment_set db s"
  let ?ids = "enrollment_id ` set ?es"
  have "\<forall>e \<in> set ?es. resolves_or_gated db e \<and> enrollment_id e \<in> ?ids"
    using res by simp
  from metrics_loop_matches[OF this, of metrics_init] obtain acc
    where l: "metrics_loop db ?ids ?es metrics_init = Inr acc"
      and v: "(total_grade_points acc, total_units acc) =
             cgpa_loop db (require_approved_for_metrics (policy db)) ?es (0, 0)"
    by (auto simp: metrics_init_def)
  have u: "update_academic_metrics db s = Inr (finish_metrics acc)"
    by (simp add: update_academic_metrics_def sel l)
  have "(current_cgpa (finish_metrics acc), total_units_attempted (finish_metrics acc)) =
             compute_cgpa_for_program db s (require_approved_for_metrics (policy db))"
    unfolding compute_cgpa_for_program_def v[symmetric]
    by (simp add: finish_metrics_def)
  with u show ?thesis by blast
qed

lemma audit_cgpa_units:
  "program_of s = Some p \<Longrightarrow>
   (cgpa (audit_student_graduation db s), total_units_earned (audit_student_graduation db s))
     = compute_cgpa_for_program db s (require_approved_for_metrics (policy db))"
  by (simp add: audit_student_graduation_def Let_def split: prod.splits)


lemma graduation_grade_point_cong:
  "grades db' = grades db \<Longrightarrow> scale db' = scale db \<Longrightarrow>
   graduation_grade_point db' e r = graduation_grade_point db e r"
  by (simp add: graduation_grade_point_def scale_first_def cong: option.case_cong if_cong)

lemma cgpa_loop_cong:
  assumes "grades db' = grades db" and "scale db' = scale db"
  shows "cgpa_loop db' r es acc = cgpa_loop db r es acc"
proof (induction es arbitrary: acc)
  case Nil
  show ?case by simp
next
  case (Cons e es)
  obtain pts n where acc: "acc = (pts, n)" by (cases acc)
  have g: "graduation_grade_point db' e r = graduation_grade_point db e r"
    by (rule graduation_grade_point_cong[OF assms])
  show ?case
    by (simp add: acc g Cons.IH cong: option.case_cong)
qed

lemma passed_loop_cong:
  assumes "grades db' = grades db" and "scale db' = scale db"
  shows "passed_loop db' r es = passed_loop db r es"
proof (induction es)
  case Nil
  show ?case by simp
next
  case (Cons e es)
  have g: "graduation_grade_point db' e r = graduation_grade_point db e r"
    by (rule graduation_grade_point_cong[OF assms])
  show ?case
    by (simp add: g Cons.IH cong: option.case_cong)
qed

lemma audit_ignores_repeat_policy:
  "audit_student_graduation (db\<lparr>policy := (policy db)\<lparr>repeat_policy := rp\<rparr>\<rparr>) s
     = audit_student_graduation db s"
proof -
  let ?db' = "db\<lparr>policy := (policy db)\<lparr>repeat_policy := rp\<rparr>\<rparr>"
  have g: "grades ?db' = grades db" and sc: "scale ?db' = scale db" by simp_all
  have c: "compute_cgpa_for_program ?db' s r = compute_cgpa_for_program db s r" for r
    unfolding compute_cgpa_for_program_def cgpa_loop_cong[OF g sc]
    by (simp add: enrollment_set_def)
  have p: "passed_course ?db' s c r = passed_course db s c r" for c r
    unfolding passed_course_def passed_loop_cong[OF g sc]
    by (simp add: course_enrollments_def)
  have k: "classify ?db' q x = classify db q x" for q x
    by (simp add: classify_def program_thresholds_def)
  have r: "require_approved_for_metrics (policy ?db') = require_approved_for_metrics (policy db)"
    and cu: "curriculum ?db' = curriculum db"
    by simp_all
  show ?thesis
    unfolding audit_student_graduation_def c p k r cu ..
qed

lemma metrics_ungraded:
  "update_academic_metrics ungraded_db student1 =
     Inr \<lparr>current_cgpa = 0, total_units_attempted = 6, total_units_passed = 0,
          total_sessions_completed = 2\<rparr>"
proof -
  have es: "enrollment_set ungraded_db student1 = [attempt1, attempt2]"
    by (simp add: enrollment_set_def ungraded_db_def audit_db_def repeat_db_def student1_def
        attempt1_def attempt2_def)
  have pol: "repeat_policy (policy ungraded_db) = ''ALL''"
    by (simp add: ungraded_db_def audit_db_def repeat_db_def)
  have sel: "select_enrollments_for_gpa ungraded_db [attempt1, attempt2] (Some ''ALL'')
      = Inr {11, 12}"
    by (simp add: select_all_ids normalise_policy_simps ids_fixture)
  have step1: "metrics_step ungraded_db {11, 12} attempt1 metrics_init =
      Inr \<lparr>total_grade_points = 0, total_units = 3, passed_units = 0, sessions_set = {21}\<rparr>"
    by (simp add: metrics_step_def ungraded_db_def no_grade_branch_def metrics_init_def
        attempt1_def pol101_def)
  have step2: "metrics_step ungraded_db {11, 12} attempt2
      \<lparr>total_grade_points = 0, total_units = 3, passed_units = 0, sessions_set = {21}\<rparr> =
      Inr \<lparr>total_grade_points = 0, total_units = 6, passed_units = 0, sessions_set = {22, 21}\<rparr>"
    by (simp add: metrics_step_def ungraded_db_def no_grade_branch_def
        attempt2_def pol101_def)
  have loop: "metrics_loop ungraded_db {11, 12} [attempt1, attempt2] metrics_init =
      Inr \<lparr>total_grade_points = 0, total_units = 6, passed_units = 0, sessions_set = {22, 21}\<rparr>"
    by (simp add: step1 step2)
  show ?thesis
    by (simp only: update_academic_metrics_def es pol Let_def sel sum.case loop)
      (simp add: finish_metrics_def py_round2_def round_half_even_def)
qed

lemma audit_ungraded_units:
  "total_units_earned (audit_student_graduation ungraded_db student1) = 0"
proof -
  have prog: "program_of student1 = Some bsc_cs" by (simp add: student1_def)
  have es: "enrollment_set ungraded_db student1 = [attempt1, attempt2]"
    by (simp add: enrollment_set_def ungraded_db_def audit_db_def repeat_db_def student1_def
        attempt1_def attempt2_def)
  have gp: "graduation_grade_point ungraded_db e r = None" for e r
    by (simp add: graduation_grade_point_def ungraded_db_def)
  have "compute_cgpa_for_program ungraded_db student1 r = (0, 0)" for r
    by (simp add: compute_cgpa_for_program_def es gp)
  with audit_cgpa_units[OF prog, of ungraded_db] show ?thesis by simp
qed

lemma resolves_fixture:
  "resolves_or_gated (audit_db rp) attempt1" "resolves_or_gated (audit_db rp) attempt2"
  by (simp_all add: resolves_or_gated_def audit_db_def repeat_db_def scale_AC_def
      attempt1_def attempt2_def)

lemma metrics_loop_append:
  "metrics_loop db counted (xs @ ys) acc =
     (case metrics_loop db counted xs acc of
        Inl err \<Rightarrow> Inl err
      | Inr acc' \<Rightarrow> metrics_loop db counted ys acc')"
  by (induction xs arbitrary: acc) (simp_all split: sum.splits)






lemma single_fixture:
  "enrollment_set single_db student1 = [attempt2]"
  "repeat_policy (policy single_db) = ''LATEST''"
  "resolves_or_gated single_db attempt2"
  "graduation_grade_point single_db attempt2 False = Some 4"
  "require_approved_for_metrics (policy single_db) = False"
  by (simp_all add: single_db_def audit_db_def repeat_db_def enrollment_set_def student1_def
      attempt2_def resolves_or_gated_def graduation_grade_point_def scale_first_def scale_AC_def)

lemma select_single:
  "select_enrollments_for_gpa single_db [attempt2] (Some ''LATEST'') = Inr {12}"
  by (simp add: select_enrollments_for_gpa_def normalise_policy_simps by_course_def
      choose_step_def py_max_def ids_fixture)

lemma audit_single:
  "cgpa (audit_student_graduation single_db student1) = 4"
  "total_units_earned (audit_student_graduation single_db student1) = 3"
proof -
  have prog: "program_of student1 = Some bsc_cs" by (simp add: student1_def)
  have loop: "cgpa_loop single_db False [attempt2] (0, 0) = (12, 3)"
    by (simp add: single_fixture units_fixture)
  have "compute_cgpa_for_program single_db student1 False = (4, 3)"
    by (simp only: compute_cgpa_for_program_def single_fixture loop prod.case)
      (simp add: py_round2_def round_half_even_def)
  with audit_cgpa_units[OF prog, of single_db]
  show "cgpa (audit_student_graduation single_db student1) = 4"
    "total_units_earned (audit_student_graduation single_db student1) = 3"
    by (simp_all add: single_fixture)
qed

text \<open>
  C7 (as amended). For a student with a programme, when the repeat policy in force
  drops none of the student's attempts (the counted set is the whole set of the
  student's enrollment identifiers: policy ALL or an unknown value, or LATEST or BEST
  with no repeated course) and every enrollment of the student is either skipped by
  approval gating or graded with a letter matching exactly one scale entry, the
  cumulative average and the total units reported by the audit equal those of the
  repeat-policy-aware metrics computation over the student's whole enrollment history.
\<close>

theorem audit_matches_metrics_when_all_counted:
  assumes "program_of s = Some p" and "r = audit_student_graduation db s"
    and "select_enrollments_for_gpa db (enrollment_set db s) (Some (repeat_policy (policy db)))
           = Inr (enrollment_id ` set (enrollment_set db s))"
    and "\<forall>e \<in> set (enrollment_set db s). resolves_or_gated db e"
  shows "\<exists>m. update_academic_metrics db s = Inr m \<and>
             current_cgpa m = cgpa r \<and> total_units_attempted m = total_units_earned r"
proof -
  have a: "(cgpa r, total_units_earned r)
           = compute_cgpa_for_program db s (require_approved_for_metrics (policy db))"
    unfolding assms(2) by (rule audit_cgpa_units[OF assms(1)])
  obtain m where m: "update_academic_metrics db s = Inr m"
    "(current_cgpa m, total_units_attempted m) =
             compute_cgpa_for_program db s (require_approved_for_metrics (policy db))"
    using metrics_matches_compute[OF assms(3,4)] by blast
  from m(2) a have "(current_cgpa m, total_units_attempted m) = (cgpa r, total_units_earned r)"
    by simp
  then have "current_cgpa m = cgpa r" "total_units_attempted m = total_units_earned r"
    by simp_all
  with m(1) show ?thesis by blast
qed

theorem audit_matches_metrics_when_all_counted_witness:
  "program_of student1 = Some bsc_cs \<and>
   select_enrollments_for_gpa (audit_db ''ALL'') (enrollment_set (audit_db ''ALL'') student1)
       (Some (repeat_policy (policy (audit_db ''ALL''))))
     = Inr (enrollment_id ` set (enrollment_set (audit_db ''ALL'') student1)) \<and>
   resolves_or_gated (audit_db ''ALL'') attempt1 \<and> resolves_or_gated (audit_db ''ALL'') attempt2 \<and>
   cgpa (audit_student_graduation (audit_db ''ALL'') student1) = 3 \<and>
   total_units_earned (audit_student_graduation (audit_db ''ALL'') student1) = 6 \<and>
   (\<exists>m. update_academic_metrics (audit_db ''ALL'') student1 = Inr m \<and>
        current_cgpa m = 3 \<and> total_units_attempted m = 6) \<and>
   repeat_policy (policy single_db) = ''LATEST'' \<and>
   select_enrollments_for_gpa single_db (enrollment_set single_db student1)
       (Some (repeat_policy (policy single_db)))
     = Inr (enrollment_id ` set (enrollment_set single_db student1)) \<and>
   resolves_or_gated single_db attempt2 \<and>
   (\<exists>m. update_academic_metrics single_db student1 = Inr m \<and>
        current_cgpa m = 4 \<and> total_units_attempted m = 3)"
proof -
  have h1: "program_of student1 = Some bsc_cs" by (simp add: student1_def)
  have pol: "repeat_policy (policy (audit_db ''ALL'')) = ''ALL''"
    by (simp add: audit_db_def repeat_db_def)
  have h2: "select_enrollments_for_gpa (audit_db ''ALL'') (enrollment_set (audit_db ''ALL'') student1)
       (Some (repeat_policy (policy (audit_db ''ALL''))))
     = Inr (enrollment_id ` set (enrollment_set (audit_db ''ALL'') student1))"
    unfolding pol by (intro select_all_ids) (simp_all add: normalise_policy_simps)
  have h3: "\<forall>e \<in> set (enrollment_set (audit_db ''ALL'') student1).
      resolves_or_gated (audit_db ''ALL'') e"
    by (simp add: enrollment_set_fixture resolves_fixture)
  have k2: "select_enrollments_for_gpa single_db (enrollment_set single_db student1)
       (Some (repeat_policy (policy single_db)))
     = Inr (enrollment_id ` set (enrollment_set single_db student1))"
    by (simp add: single_fixture select_single ids_fixture)
  have k3: "\<forall>e \<in> set (enrollment_set single_db student1). resolves_or_gated single_db e"
    by (simp add: single_fixture)
  show ?thesis
    using audit_matches_metrics_when_all_counted[OF h1 refl h2 h3]
      audit_matches_metrics_when_all_counted[OF h1 refl k2 k3] h1 h2 k2
    by (simp add: audit_fixture resolves_fixture single_fixture audit_single)
qed

text \<open>
  C7 as stated fails. Under policy LATEST the audit still counts both attempts at
  POL101 (average 3, 6 units) while the metrics computation counts the later one only
  (average 4, 3 units); and with no grade entered the audit reports 0 units while the
  metrics computation reports the 6 attempted units.
\<close>

theorem audit_differs_from_metrics_counterexample:
  "cgpa (audit_student_graduation (audit_db ''LATEST'') student1) = 3 \<and>
   total_units_earned (audit_student_graduation (audit_db ''LATEST'') student1) = 6 \<and>
   update_academic_metrics (audit_db ''LATEST'') student1 =
     Inr \<lparr>current_cgpa = 4, total_units_attempted = 3, total_units_passed = 6,
          total_sessions_completed = 2\<rparr> \<and>
   total_units_earned (audit_student_graduation ungraded_db student1) = 0 \<and>
   update_academic_metrics ungraded_db student1 =
     Inr \<lparr>current_cgpa = 0, total_units_attempted = 6, total_units_passed = 0,
          total_sessions_completed = 2\<rparr>"
  by (simp add: audit_fixture metrics_latest audit_ungraded_units metrics_ungraded)









section \<open>Properties of the canonical payload\<close>


lemma enrollment_item_cong:
  assumes "grades db' (enrollment_id e) = grades db (enrollment_id e)"
    and "\<forall>g. grades db (enrollment_id e) = Some g \<longrightarrow>
           scale_first db' (grade g) = scale_first db (grade g)"
  shows "enrollment_item db' e = enrollment_item db e"
proof (cases "grades db (enrollment_id e)")
  case None
  with assms(1) show ?thesis by (simp add: enrollment_item_def)
next
  case (Some g)
  with assms(2) have "scale_first db' (grade g) = scale_first db (grade g)" by simp
  with Some assms(1) show ?thesis by (simp add: enrollment_item_def)
qed

lemma build_payload_cong:
  assumes "\<forall>e \<in> set es. grades db' (enrollment_id e) = grades db (enrollment_id e)"
    and "\<forall>e \<in> set es. \<forall>g. grades db (enrollment_id e) = Some g \<longrightarrow>
           scale_first db' (grade g) = scale_first db (grade g)"
  shows "build_canonical_transcript_payload db' s es cs
           = build_canonical_transcript_payload db s es cs"
proof -
  have "map (enrollment_item db') es = map (enrollment_item db) es"
    using assms by (intro map_cong refl enrollment_item_cong) auto
  then show ?thesis by (simp add: build_canonical_transcript_payload_def)
qed

lemma payload_keys_distinct:
  "distinct (map fst (build_canonical_transcript_payload db s es cs))"
  by (simp add: build_canonical_transcript_payload_def)

lemma sort_key_fst_unique:
  assumes "distinct (map fst xs)" and "distinct (map fst ys)" and "set xs = set ys"
  shows "sort_key fst xs = sort_key fst ys"
proof -
  let ?a = "sort_key fst xs" and ?b = "sort_key fst ys"
  have inj: "inj_on fst (set xs)" using assms(1) by (simp add: distinct_map)
  have da: "distinct (map fst ?a)" using assms(1) by (simp add: distinct_map)
  have db: "distinct (map fst ?b)" using assms(2) by (simp add: distinct_map)
  have "set (map fst ?a) = set (map fst ?b)" using assms(3) by simp
  then have keys: "map fst ?a = map fst ?b"
    using sorted_distinct_set_unique[OF sorted_sort_key da sorted_sort_key db] by simp
  have "inj_on fst (set ?a \<union> set ?b)" using inj assms(3) by simp
  from inj_on_map_eq_map[OF this] keys show ?thesis by simp
qed

lemma dumps_key_order:
  assumes "distinct (map fst d)" and "distinct (map fst d')" and "set d = set d'"
  shows "canonical_json fr (JObj d) = canonical_json fr (JObj d')"
  by (simp add: canonical_json_def sort_key_fst_unique[OF assms])

text \<open>
  C3. The canonical payload is a function of the student's identity fields, the
  enrollment line items, the grade of each listed enrollment, the scale entry its
  letter resolves to and the institution metadata, and of nothing else: two builds
  against databases that agree on these produce the same serialisation, byte for byte,
  and so the same document hash. The serialisation writes the keys of a dictionary in
  sorted order, so it does not depend on the order in which the keys were inserted.
\<close>

theorem canonical_payload_deterministic:
  assumes "\<forall>e \<in> set es. grades db' (enrollment_id e) = grades db (enrollment_id e)"
    and "\<forall>e \<in> set es. \<forall>g. grades db (enrollment_id e) = Some g \<longrightarrow>
           scale_first db' (grade g) = scale_first db (grade g)"
    and "p = build_canonical_transcript_payload db s es cs"
    and "p' = build_canonical_transcript_payload db' s es cs"
  shows "canonical_json fr (JObj p') = canonical_json fr (JObj p) \<and>
         generate_document_hash env (canonical_json fr (JObj p'))
           = generate_document_hash env (canonical_json fr (JObj p)) \<and>
         (\<forall>d. distinct (map fst d) \<and> set d = set p \<longrightarrow>
              canonical_json fr (JObj d) = canonical_json fr (JObj p))"
proof -
  have eq: "p' = p" unfolding assms(3,4) by (rule build_payload_cong[OF assms(1,2)])
  have dp: "distinct (map fst p)" unfolding assms(3) by (rule payload_keys_distinct)
  have "canonical_json fr (JObj d) = canonical_json fr (JObj p)"
    if "distinct (map fst d) \<and> set d = set p" for d
    using that dp by (intro dumps_key_order) auto
  with eq show ?thesis by simp
qed

theorem canonical_payload_deterministic_witness:
  "grades other_db (enrollment_id attempt1) = grades (repeat_db ''ALL'') (enrollment_id attempt1) \<and>
   grades other_db (enrollment_id attempt2) = grades (repeat_db ''ALL'') (enrollment_id attempt2) \<and>
   scale other_db = scale (repeat_db ''ALL'') \<and>
   other_db \<noteq> repeat_db ''ALL'' \<and>
   canonical_json (float_repr env0)
       (JObj (build_canonical_transcript_payload other_db student1 [attempt1, attempt2] None))
     = canonical_json (float_repr env0)
       (JObj (build_canonical_transcript_payload (repeat_db ''ALL'') student1 [attempt1, attempt2] None)) \<and>
   canonical_json (float_repr env0)
       (JObj (rev (build_canonical_transcript_payload (repeat_db ''ALL'') student1
                     [attempt1, attempt2] None)))
     = canonical_json (float_repr env0)
       (JObj (build_canonical_transcript_payload (repeat_db ''ALL'') student1 [attempt1, attempt2] None))"
proof -
  let ?db = "repeat_db ''ALL''"
  let ?p = "build_canonical_transcript_payload ?db student1 [attempt1, attempt2] None"
  have g: "grades other_db (enrollment_id attempt1) = grades ?db (enrollment_id attempt1)"
    "grades other_db (enrollment_id attempt2) = grades ?db (enrollment_id attempt2)"
    by (simp_all add: other_db_def audit_db_def repeat_db_def attempt1_def attempt2_def)
  have sc: "scale other_db = scale ?db"
    by (simp add: other_db_def audit_db_def repeat_db_def)
  have ne: "other_db \<noteq> ?db"
  proof
    assume "other_db = ?db"
    then have "curriculum other_db = curriculum ?db" by simp
    then show False by (simp add: other_db_def audit_db_def repeat_db_def)
  qed
  have h1: "\<forall>e \<in> set [attempt1, attempt2].
      grades other_db (enrollment_id e) = grades ?db (enrollment_id e)"
    using g by simp
  have h2: "\<forall>e \<in> set [attempt1, attempt2]. \<forall>g. grades ?db (enrollment_id e) = Some g \<longrightarrow>
           scale_first other_db (grade g) = scale_first ?db (grade g)"
    by (simp add: scale_first_def sc)
  have r: "distinct (map fst (rev ?p)) \<and> set (rev ?p) = set ?p"
    using payload_keys_distinct[of ?db student1 "[attempt1, attempt2]" None]
    by (simp add: rev_map[symmetric])
  show ?thesis
    using canonical_payload_deterministic[where s = student1 and cs = None
          and fr = "float_repr env0" and env = env0, OF h1 h2 refl refl]
      g sc ne r
    by blast
qed


section \<open>Properties of issuing and verifying\<close>


lemma dict_set_not_Nil: "dict_set k v d \<noteq> []"
  by (cases d) (auto split: if_splits)

lemma map_of_dict_set_other: "k \<noteq> k' \<Longrightarrow> map_of (dict_set k' v d) k = map_of d k"
  by (induction d) auto

lemma dict_get_dict_set_other: "k \<noteq> k' \<Longrightarrow> dict_get (dict_set k' v d) k = dict_get d k"
  by (simp add: dict_get_def map_of_dict_set_other)

lemma is_active_iff:
  "is_active r now = (revoked_at r = None \<and> (\<forall>t. expires_at r = Some t \<longrightarrow> now < t))"
  by (auto simp: is_active_def split: option.splits)

lemma verify_absent:
  assumes "records st (str_upper (str_strip code_in)) = None"
  shows "fst (verify_transcript_security env st now code_in) =
     \<lparr>valid = False, error = Some INVALID_REASON, data = None, verified_at = isoformat env now\<rparr>"
  using assms by (simp add: verify_transcript_security_def verify_transcript_def)

lemma verify_inactive:
  assumes "records st (str_upper (str_strip code_in)) = Some r" and "\<not> is_active r now"
  shows "fst (verify_transcript_security env st now code_in) =
     \<lparr>valid = False, error = Some INVALID_REASON, data = None, verified_at = isoformat env now\<rparr>"
  using assms by (simp add: verify_transcript_security_def verify_transcript_def)

lemma verify_active:
  assumes "records st (str_upper (str_strip code_in)) = Some r" and "is_active r now"
    and "vd = dict_set ''verified_at'' (JStr (isoformat env now)) (payload_json r)"
  shows "fst (verify_transcript_security env st now code_in) =
     (if fst (validate_tamper_evidence env vd)
      then \<lparr>valid = True, error = None, data = Some vd, verified_at = isoformat env now\<rparr>
      else \<lparr>valid = False, error = snd (validate_tamper_evidence env vd), data = Some vd,
             verified_at = isoformat env now\<rparr>)"
  using assms
  by (simp add: verify_transcript_security_def verify_transcript_def Let_def dict_set_not_Nil
      split: prod.splits)

lemma validate_on_verification_data:
  "validate_tamper_evidence env (dict_set ''verified_at'' v d) = validate_tamper_evidence env d"
  by (simp add: validate_tamper_evidence_def dict_get_dict_set_other)

text \<open>
  C2. Verification looks up the record stored under the normalised code (stripped,
  upper-cased). No record, or a record that is revoked or whose expiry is set and not
  in the future: invalid, with the invalid-or-expired reason. An active record whose
  stored verification data lacks a canonical payload or a digest (absent, \<open>None\<close> or
  empty): valid, with no tamper check. Otherwise the digest is recomputed from the
  stored canonical payload and compared with the stored digest: a mismatch is invalid
  with the tampering reason, a match is valid and returns the stored payload.
\<close>

theorem verify_case_analysis:
  assumes "res = fst (verify_transcript_security env st now code_in)"
    and "vcode = str_upper (str_strip code_in)"
  shows
    "(records st vcode = None \<longrightarrow> \<not> valid res \<and> error res = Some INVALID_REASON) \<and>
     (\<forall>r. records st vcode = Some r \<longrightarrow>
        (let payload = dict_get (payload_json r) ''canonical_payload'';
             stored_hash = dict_get (payload_json r) ''document_hash'';
             recomputed = sha256_hexdigest env (canonical_json (float_repr env) payload)
         in if revoked_at r \<noteq> None \<or> (\<exists>t. expires_at r = Some t \<and> t \<le> now)
            then \<not> valid res \<and> error res = Some INVALID_REASON
            else if \<not> truthy payload \<or> \<not> truthy stored_hash
            then valid res \<and> error res = None
            else if JStr recomputed \<noteq> stored_hash
            then \<not> valid res \<and> error res = Some TAMPER_REASON
            else valid res \<and> error res = None \<and>
                 (\<exists>d. data res = Some d \<and> dict_get d ''canonical_payload'' = payload)))"
proof -
  have absent: "records st vcode = None \<longrightarrow> \<not> valid res \<and> error res = Some INVALID_REASON"
    unfolding assms by (simp add: verify_absent)
  have present: "let payload = dict_get (payload_json r) ''canonical_payload'';
             stored_hash = dict_get (payload_json r) ''document_hash'';
             recomputed = sha256_hexdigest env (canonical_json (float_repr env) payload)
         in if revoked_at r \<noteq> None \<or> (\<exists>t. expires_at r = Some t \<and> t \<le> now)
            then \<not> valid res \<and> error res = Some INVALID_REASON
            else if \<not> truthy payload \<or> \<not> truthy stored_hash
            then valid res \<and> error res = None
            else if JStr recomputed \<noteq> stored_hash
            then \<not> valid res \<and> error res = Some TAMPER_REASON
            else valid res \<and> error res = None \<and>
                 (\<exists>d. data res = Some d \<and> dict_get d ''canonical_payload'' = payload)"
    if r: "records st vcode = Some r" for r
  proof -
    let ?vd = "dict_set ''verified_at'' (JStr (isoformat env now)) (payload_json r)"
    show ?thesis
  proof (cases "is_active r now")
    case False
    then have "revoked_at r \<noteq> None \<or> (\<exists>t. expires_at r = Some t \<and> t \<le> now)"
      by (auto simp: is_active_iff)
    moreover have "\<not> valid res \<and> error res = Some INVALID_REASON"
      unfolding assms(1) using verify_inactive[OF r[unfolded assms(2)] False] by simp
    ultimately show ?thesis by (simp add: Let_def)
  next
    case True
    then have act: "\<not> (revoked_at r \<noteq> None \<or> (\<exists>t. expires_at r = Some t \<and> t \<le> now))"
      by (auto simp: is_active_iff)
    have res: "res =
     (if fst (validate_tamper_evidence env (payload_json r))
      then \<lparr>valid = True, error = None, data = Some ?vd, verified_at = isoformat env now\<rparr>
      else \<lparr>valid = False, error = snd (validate_tamper_evidence env (payload_json r)),
             data = Some ?vd, verified_at = isoformat env now\<rparr>)"
      unfolding assms(1)
      using verify_active[OF r[unfolded assms(2)] True refl, of env]
      by (simp add: validate_on_verification_data)
    have pl: "dict_get ?vd ''canonical_payload'' = dict_get (payload_json r) ''canonical_payload''"
      by (simp add: dict_get_dict_set_other)
    show ?thesis
      using act pl
      by (auto simp: Let_def res validate_tamper_evidence_def generate_document_hash_def)
  qed
  qed
  from absent present show ?thesis by blast
qed


theorem verify_case_analysis_witness:
  "str_upper (str_strip '' txn-ab12 '') = ''TXN-AB12'' \<and>
   payload_json (the (records state1 ''TXN-AB12'')) =
     [(''document_hash'', JStr zero_digest),
      (''canonical_payload'', JObj sample_payload)] \<and>
   valid (fst (verify_transcript_security env0 state1 50 '' txn-ab12 '')) \<and>
   error (fst (verify_transcript_security env0 state1 50 '' txn-ab12 '')) = None \<and>
   \<not> valid (fst (verify_transcript_security env0 state1 100 '' txn-ab12 '')) \<and>
   error (fst (verify_transcript_security env0 state1 100 '' txn-ab12 '')) = Some INVALID_REASON \<and>
   \<not> valid (fst (verify_transcript_security env0 state1 50 ''TXN-NONE''))"
proof -
  have n: "str_upper (str_strip '' txn-ab12 '') = ''TXN-AB12''"
    "str_upper (str_strip ''TXN-NONE'') = ''TXN-NONE''"
    by (simp_all add: str_upper_def str_strip_def is_space_def upper_char_def)
  have r: "records state1 ''TXN-AB12'' = Some (stored_record
        [(''document_hash'', JStr zero_digest),
         (''canonical_payload'', JObj sample_payload)])"
    "records state1 ''TXN-NONE'' = None"
    by (simp_all add: state1_def state0_def)
  have sha: "sha256_hexdigest env0 x = zero_digest" for x
    by (simp add: env0_def)
  have g: "dict_get [(''document_hash'', JStr zero_digest),
         (''canonical_payload'', JObj sample_payload)] ''canonical_payload'' = JObj sample_payload"
    "dict_get [(''document_hash'', JStr zero_digest),
         (''canonical_payload'', JObj sample_payload)] ''document_hash''
       = JStr zero_digest"
    by (simp_all add: dict_get_def)
  have t: "sample_payload \<noteq> []" "zero_digest \<noteq> []"
    by (simp_all add: sample_payload_def zero_digest_def)
  have f: "revoked_at (stored_record d) = None" "expires_at (stored_record d) = Some 100"
    "payload_json (stored_record d) = d" for d
    by (simp_all add: stored_record_def)
  show ?thesis
    using verify_case_analysis[where env = env0 and st = state1 and now = 50, OF refl n(1)[symmetric]]
      verify_case_analysis[where env = env0 and st = state1 and now = 100, OF refl n(1)[symmetric]]
      verify_case_analysis[where env = env0 and st = state1 and now = 50, OF refl n(2)[symmetric]]
    by (simp add: n r sha g t f Let_def)
qed

lemma text_column_issue:
  "text_column env' (issue_verification_data env now s content cs) ''college_name'' =
     (case cs of None \<Rightarrow> Some ''Unknown'' | Some c \<Rightarrow> college_name c)"
  by (simp add: text_column_def issue_verification_data_def Let_def json_opt_str_def
      split: option.splits)

lemma store_rejects_null_college:
  assumes "text_column env d ''college_name'' = None"
  shows "fst (store_verification_data env st now vcode d) = False \<and>
         records (snd (store_verification_data env st now vcode d)) = records st"
  using assms
  by (simp add: store_verification_data_def Let_def split: json.splits option.splits)

text \<open>
  C1 (where the round trip breaks). When the college settings row has no name, the
  verification data carries \<open>None\<close> for the college name, the durable row is rejected
  and \<open>store_verification_data\<close> returns \<open>False\<close>, which issuance does not inspect:
  a code is handed out, the table is unchanged, and verifying the code right away
  reports it invalid (provided no record was stored under that code before).
\<close>

theorem issue_with_unnamed_college_not_verifiable:
  assumes "college_name c = None"
    and "issued = create_secure_transcript_data env st now s (DictContent payload) (Some c)"
    and "records st (str_upper (str_strip (sf_verification_code (fst issued)))) = None"
  shows "records (snd issued) = records st \<and>
         fst (verify_transcript_security env (snd issued) now' (sf_verification_code (fst issued)))
           = \<lparr>valid = False, error = Some INVALID_REASON, data = None,
              verified_at = isoformat env now'\<rparr>"
proof -
  let ?vcode = "generate_verification_code env (student_id s) now"
  let ?d = "issue_verification_data env now s (DictContent payload) (Some c)"
  have tc: "text_column env ?d ''college_name'' = None"
    by (simp add: text_column_issue assms(1))
  have code: "sf_verification_code (fst issued) = ?vcode"
    unfolding assms(2) create_secure_transcript_data_def
    by (simp add: Let_def split: prod.splits)
  have st': "snd issued = snd (store_verification_data env st now ?vcode ?d)"
    unfolding assms(2) create_secure_transcript_data_def
    by (simp add: Let_def split: prod.splits)
  have recs: "records (snd issued) = records st"
    unfolding st' using store_rejects_null_college[OF tc] by simp
  have "records (snd issued) (str_upper (str_strip (sf_verification_code (fst issued)))) = None"
    using assms(3) recs by simp
  from verify_absent[OF this] recs show ?thesis by simp
qed


lemma issued_code_env0:
  "generate_verification_code env0 (student_id student1) t = ''TXN-000000000000''"
  by (simp add: generate_verification_code_def env0_def zero_digest_def str_upper_def
      upper_char_def)

theorem issue_with_unnamed_college_not_verifiable_witness:
  "college_name unnamed_college = None \<and>
   students state0 (student_id student1) = Some 7 \<and>
   sf_verification_code (fst (create_secure_transcript_data env0 state0 0 student1
       (DictContent sample_payload) (Some unnamed_college))) = ''TXN-000000000000'' \<and>
   records state0 (str_upper (str_strip ''TXN-000000000000'')) = None \<and>
   \<not> valid (fst (verify_transcript_security env0
       (snd (create_secure_transcript_data env0 state0 0 student1
          (DictContent sample_payload) (Some unnamed_college)))
       1 ''TXN-000000000000''))"
proof -
  let ?issued = "create_secure_transcript_data env0 state0 0 student1
       (DictContent sample_payload) (Some unnamed_college)"
  have h1: "college_name unnamed_college = None" by (simp add: unnamed_college_def)
  have c: "sf_verification_code (fst ?issued) = ''TXN-000000000000''"
    unfolding create_secure_transcript_data_def
    by (simp add: Let_def issued_code_env0 split: prod.splits)
  have h3: "records state0 (str_upper (str_strip (sf_verification_code (fst ?issued)))) = None"
    by (simp add: state0_def)
  have s: "students state0 (student_id student1) = Some 7"
    by (simp add: state0_def student1_def)
  show ?thesis
    using issue_with_unnamed_college_not_verifiable[OF h1 refl h3, of 1] h1 s c h3
    by simp
qed

lemma store_persists:
  assumes "dict_get d ''student_id'' = JStr sid" and "sid \<noteq> []"
    and "students st sid = Some pk"
    and "dict_get d ''generation_timestamp'' = JStr ts" and "fromisoformat env ts = Some t"
    and "text_column env d ''student_name'' = Some a"
    and "text_column env d ''document_hash'' = Some b"
    and "text_column env d ''college_name'' = Some c"
    and "text_column env d ''verification_url'' = Some u"
    and "\<forall>old. records st vcode = Some old \<longrightarrow> revoked_at old = None"
  shows "\<exists>row. records (snd (store_verification_data env st now vcode d)) vcode = Some row \<and>
           payload_json row = d \<and> revoked_at row = None \<and>
           expires_at row = Some (now + verification_cache_timeout)"
  using assms
  by (cases "records st vcode")
    (simp_all add: store_verification_data_def stored_timestamp_def Let_def)

lemma issue_lookups:
  "dict_get (issue_verification_data env now s content cs) ''student_id'' = JStr (student_id s)"
  "dict_get (issue_verification_data env now s content cs) ''generation_timestamp''
     = JStr (isoformat env now)"
  "dict_get (issue_verification_data env now s content cs) ''document_hash''
     = JStr (content_document_hash env content)"
  "dict_get (issue_verification_data env now s (DictContent payload) cs) ''canonical_payload''
     = JObj payload"
  "text_column env' (issue_verification_data env now s content cs) ''student_name''
     = Some (first_name s @ '' '' @ last_name s)"
  "text_column env' (issue_verification_data env now s content cs) ''document_hash''
     = Some (content_document_hash env content)"
  "text_column env' (issue_verification_data env now s content cs) ''verification_url''
     = Some (base_verification_url env @ ''?code=''
          @ generate_verification_code env (student_id s) now)"
  by (simp_all add: dict_get_def text_column_def issue_verification_data_def Let_def)

text \<open>
  Everywhere else the round trip holds: when the student is on record, the timestamp
  parses back, the college (if any) has a name, the code is in normal form and not
  already revoked, and verification happens before the expiry, the issued payload
  verifies and is returned unchanged.
\<close>

lemma round_trip_when_persisted:
  assumes "students st (student_id s) = Some pk" and "student_id s \<noteq> []"
    and "fromisoformat env (isoformat env now) = Some t"
    and "cs = None \<or> (\<exists>c n. cs = Some c \<and> college_name c = Some n)"
    and "issued = create_secure_transcript_data env st now s (DictContent payload) cs"
    and "vcode = sf_verification_code (fst issued)"
    and "str_upper (str_strip vcode) = vcode"
    and "\<forall>old. records st vcode = Some old \<longrightarrow> revoked_at old = None"
    and "now' < now + verification_cache_timeout"
    and "res = fst (verify_transcript_security env (snd issued) now' vcode)"
  shows "valid res \<and> error res = None \<and>
         (\<exists>d. data res = Some d \<and> dict_get d ''canonical_payload'' = JObj payload)"
proof -
  let ?gen = "generate_verification_code env (student_id s) now"
  let ?d = "issue_verification_data env now s (DictContent payload) cs"
  have code: "vcode = ?gen"
    unfolding assms(6) assms(5) create_secure_transcript_data_def
    by (simp add: Let_def split: prod.splits)
  have st': "snd issued = snd (store_verification_data env st now ?gen ?d)"
    unfolding assms(5) create_secure_transcript_data_def
    by (simp add: Let_def split: prod.splits)
  obtain cn where cn: "text_column env ?d ''college_name'' = Some cn"
    using assms(4) by (auto simp: text_column_issue)
  from store_persists[OF issue_lookups(1) assms(2) assms(1) issue_lookups(2) assms(3)
      issue_lookups(5) issue_lookups(6) cn issue_lookups(7) assms(8)[unfolded code], of now]
  obtain row where row: "records (snd issued) vcode = Some row" "payload_json row = ?d"
    "revoked_at row = None" "expires_at row = Some (now + verification_cache_timeout)"
    unfolding st' code by blast
  have active: "is_active row now'"
    using row(3,4) assms(9) by (simp add: is_active_iff)
  let ?vd = "dict_set ''verified_at'' (JStr (isoformat env now')) ?d"
  have v: "fst (validate_tamper_evidence env ?vd)"
    unfolding validate_on_verification_data
    by (simp add: validate_tamper_evidence_def issue_lookups content_document_hash_def Let_def)
  have row': "records (snd issued) (str_upper (str_strip vcode)) = Some row"
    using row(1) assms(7) by simp
  have r: "res = \<lparr>valid = True, error = None, data = Some ?vd, verified_at = isoformat env now'\<rparr>"
    unfolding assms(10)
    using verify_active[OF row' active, of ?vd env] v
    by (simp add: row(2))
  have "dict_get ?vd ''canonical_payload'' = JObj payload"
    by (simp add: dict_get_dict_set_other issue_lookups)
  with r show ?thesis by simp
qed


end
